theory Spec2Isabelle
  imports Complex_Main
begin

section \<open>Gateway ingress (src/gateway/server-http.ts): data model\<close>

text \<open>
  Timestamps and durations are JavaScript numbers holding whole milliseconds; they are
  modelled as \<open>int\<close>. An optional field (\<open>x?: T\<close>) is an \<open>option\<close>. JavaScript
  truthiness is written out where the source tests it: the empty string, the number 0
  and \<open>undefined\<close> are falsy.
\<close>

definition truthyString :: "string option \<Rightarrow> bool" where
  "truthyString s = (case s of None \<Rightarrow> False | Some v \<Rightarrow> v \<noteq> [])"

definition truthyNumber :: "int option \<Rightarrow> bool" where
  "truthyNumber n = (case n of None \<Rightarrow> False | Some v \<Rightarrow> v \<noteq> 0)"

text \<open>\<open>GatewayWsClient\<close> (server/ws-types.js), the fields this module reads and writes.\<close>

record gatewayWsClient =
  connectRole :: "string option"
  connectClientMode :: "string option"
  canvasCapability :: "string option"
  canvasCapabilityExpiresAtMs :: "int option"

text \<open>
  The imports of the capability check that are not part of this module: the secret
  comparator (security/secret-equal.js), the client-mode normaliser and the node mode
  tag (protocol/client-info.js) and the TTL constant (canvas-capability.js). They are
  parameters of the model.
\<close>

record registryImports =
  safeEqualSecret :: "string \<Rightarrow> string \<Rightarrow> bool"
  normalizeGatewayClientMode :: "string option \<Rightarrow> string option"
  GATEWAY_CLIENT_MODES_NODE :: string
  CANVAS_CAPABILITY_TTL_MS :: int

definition isNodeWsClient :: "'a registryImports_scheme \<Rightarrow> gatewayWsClient \<Rightarrow> bool" where
  "isNodeWsClient im client =
     (if connectRole client = Some ''node'' then True
      else normalizeGatewayClientMode im (connectClientMode client)
             = Some (GATEWAY_CLIENT_MODES_NODE im))"

text \<open>
  \<open>hasAuthorizedNodeWsClientForCanvasCapability\<close>. The \<open>Set\<close> of clients is iterated in
  insertion order and is modelled as the list of its members in that order; \<open>Date.now()\<close>
  is read once, before the loop, and is the parameter \<open>nowMs\<close>. The function returns
  its boolean together with the clients after the call, since a match renews the
  matching client's expiry in place.
\<close>

fun hasAuthorizedNodeWsClientForCanvasCapability ::
  "'a registryImports_scheme \<Rightarrow> int \<Rightarrow> gatewayWsClient list \<Rightarrow> string
     \<Rightarrow> bool \<times> gatewayWsClient list" where
  "hasAuthorizedNodeWsClientForCanvasCapability im nowMs [] capability = (False, [])"
| "hasAuthorizedNodeWsClientForCanvasCapability im nowMs (client # rest) capability =
     (let continue =
        (case hasAuthorizedNodeWsClientForCanvasCapability im nowMs rest capability of
           (r, rest') \<Rightarrow> (r, client # rest'))
      in
        if \<not> isNodeWsClient im client then continue
        else if \<not> truthyString (canvasCapability client)
                \<or> \<not> truthyNumber (canvasCapabilityExpiresAtMs client) then continue
        else (case (canvasCapability client, canvasCapabilityExpiresAtMs client) of
                (Some cap, Some expiresAtMs) \<Rightarrow>
                  if expiresAtMs \<le> nowMs then continue
                  else if safeEqualSecret im cap capability then
                    (True,
                     client\<lparr>canvasCapabilityExpiresAtMs :=
                              Some (nowMs + CANVAS_CAPABILITY_TTL_MS im)\<rparr> # rest)
                  else continue
              | _ \<Rightarrow> continue))"

section \<open>Requests, verdicts and the collaborators of the auth resolver\<close>

text \<open>A thrown value (a rejected promise is a throw at its \<open>await\<close>): its message.\<close>

type_synonym exn = string

text \<open>\<open>IncomingMessage\<close>: the parts the ingress layer and its collaborators read.\<close>

record request =
  reqMethod :: "string option"
  reqUrl :: "string option"
  reqHeaders :: "(string \<times> string) list"
  reqRemoteAddress :: "string option"

text \<open>\<open>ResolvedGatewayAuth\<close> and \<open>GatewayAuthResult\<close> (auth.js).\<close>

record resolvedGatewayAuth =
  authMode :: string
  authToken :: "string option"
  authPassword :: "string option"
  allowTailscale :: bool

record gatewayAuthResult =
  ok :: bool
  reason :: "string option"
  rateLimited :: "bool option"
  retryAfterMs :: "int option"

record connectAuth =
  connectToken :: "string option"
  connectPassword :: "string option"

text \<open>\<open>AuthRateLimiter\<close> is a handle the ingress layer only passes on.\<close>

datatype authRateLimiter = AuthRateLimiter nat

text \<open>The argument object of \<open>authorizeGatewayConnect\<close>.\<close>

record gatewayConnectParams =
  cpAuth :: resolvedGatewayAuth
  cpConnectAuth :: "connectAuth option"
  cpReq :: request
  cpTrustedProxies :: "string list"
  cpRateLimiter :: "authRateLimiter option"

text \<open>
  The calls the ingress layer makes to code outside this module are recorded, in order,
  in a trace. The rate limiter is reached only through \<open>authorizeGatewayConnect\<close>; the
  session set is read only by the capability check.
\<close>

datatype handlerName =
    Hooks | ToolsInvoke | Slack | Plugin | OpenResponses | OpenAi
  | A2ui | CanvasHostHttp | ControlUiAvatar | ControlUiHttp

datatype event =
    CallLoadConfig
  | CallIsLocalDirectRequest request "string list"
  | CallGetBearerToken request
  | CallAuthorizeGatewayConnect gatewayConnectParams
  | CapabilityCheck string
  | CallHandler handlerName
  | CallCanvasHostHandleUpgrade
  | CallWssHandleUpgrade

text \<open>
  The state a request runs in: the object it answers on (the \<open>ServerResponse\<close> of an
  HTTP request, the socket of an upgrade), the shared session set, and the trace.
\<close>

record 'io world =
  io :: 'io
  clients :: "gatewayWsClient list"
  trace :: "event list"

definition logEvent :: "event \<Rightarrow> 'io world \<Rightarrow> 'io world" where
  "logEvent ev w = w\<lparr>trace := trace w @ [ev]\<rparr>"

text \<open>
  Further imports, parameters of the model: \<open>isLocalDirectRequest\<close> and
  \<open>authorizeGatewayConnect\<close> (auth.js), \<open>getBearerToken\<close> (http-utils.js).
\<close>

record authImports = registryImports +
  isLocalDirectRequest :: "request \<Rightarrow> string list \<Rightarrow> bool"
  getBearerToken :: "request \<Rightarrow> string option"
  authorizeGatewayConnect :: "gatewayConnectParams \<Rightarrow> exn + gatewayAuthResult"

definition authOk :: gatewayAuthResult where
  "authOk = \<lparr>ok = True, reason = None, rateLimited = None, retryAfterMs = None\<rparr>"

definition authUnauthorized :: gatewayAuthResult where
  "authUnauthorized =
     \<lparr>ok = False, reason = Some ''unauthorized'', rateLimited = None, retryAfterMs = None\<rparr>"

section \<open>The auth resolver: authorizeCanvasRequest\<close>

record canvasAuthParams =
  pReq :: request
  pAuth :: resolvedGatewayAuth
  pTrustedProxies :: "string list"
  pCanvasCapability :: "string option"
  pMalformedScopedPath :: bool
  pRateLimiter :: "authRateLimiter option"

text \<open>
  Lines 136 to 139: the capability check, made only for a truthy capability, and the
  final verdict \<open>lastAuthFailure ?? { ok: false, reason: "unauthorized" }\<close>.
\<close>

definition authorizeCanvasRequest_capability ::
  "'a authImports_scheme \<Rightarrow> int \<Rightarrow> canvasAuthParams \<Rightarrow> gatewayAuthResult option
     \<Rightarrow> 'io world \<Rightarrow> (exn + gatewayAuthResult) \<times> 'io world" where
  "authorizeCanvasRequest_capability im nowMs p lastAuthFailure w =
     (let denial = (case lastAuthFailure of None \<Rightarrow> authUnauthorized | Some f \<Rightarrow> f) in
      case pCanvasCapability p of
        None \<Rightarrow> (Inr denial, w)
      | Some capability \<Rightarrow>
          if capability = [] then (Inr denial, w)
          else (case hasAuthorizedNodeWsClientForCanvasCapability im nowMs (clients w) capability of
                  (found, clients') \<Rightarrow>
                    (let w' = logEvent (CapabilityCheck capability) (w\<lparr>clients := clients'\<rparr>)
                     in if found then (Inr authOk, w') else (Inr denial, w'))))"

definition authorizeCanvasRequest ::
  "'a authImports_scheme \<Rightarrow> int \<Rightarrow> canvasAuthParams
     \<Rightarrow> 'io world \<Rightarrow> (exn + gatewayAuthResult) \<times> 'io world" where
  "authorizeCanvasRequest im nowMs p w =
     (if pMalformedScopedPath p then (Inr authUnauthorized, w)
      else
        let w1 = logEvent (CallIsLocalDirectRequest (pReq p) (pTrustedProxies p)) w in
        if isLocalDirectRequest im (pReq p) (pTrustedProxies p) then (Inr authOk, w1)
        else
          let w2 = logEvent (CallGetBearerToken (pReq p)) w1 in
          case getBearerToken im (pReq p) of
            None \<Rightarrow> authorizeCanvasRequest_capability im nowMs p None w2
          | Some token \<Rightarrow>
              if token = [] then authorizeCanvasRequest_capability im nowMs p None w2
              else
                let params =
                      \<lparr>cpAuth = (pAuth p)\<lparr>allowTailscale := False\<rparr>,
                       cpConnectAuth =
                         Some \<lparr>connectToken = Some token, connectPassword = Some token\<rparr>,
                       cpReq = pReq p,
                       cpTrustedProxies = pTrustedProxies p,
                       cpRateLimiter = pRateLimiter p\<rparr>;
                    w3 = logEvent (CallAuthorizeGatewayConnect params) w2
                in (case authorizeGatewayConnect im params of
                      Inl e \<Rightarrow> (Inl e, w3)
                    | Inr authResult \<Rightarrow>
                        if ok authResult then (Inr authResult, w3)
                        else authorizeCanvasRequest_capability im nowMs p (Some authResult) w3))"

section \<open>Strings, numbers and the two output objects\<close>

definition CRLF :: string where
  "CRLF = [CHR 0x0D, CHR 0x0A]"

text \<open>\<open>Array.prototype.join\<close> on strings.\<close>

fun joinWith :: "string \<Rightarrow> string list \<Rightarrow> string" where
  "joinWith sep [] = []"
| "joinWith sep [x] = x"
| "joinWith sep (x # y # ys) = x @ sep @ joinWith sep (y # ys)"

text \<open>
  \<open>.filter(Boolean)\<close> on an array of \<open>string | undefined\<close>: it keeps the truthy entries,
  so it drops \<open>undefined\<close> and the empty string alike.
\<close>

fun filterBoolean :: "string option list \<Rightarrow> string list" where
  "filterBoolean [] = []"
| "filterBoolean (None # xs) = filterBoolean xs"
| "filterBoolean (Some x # xs) = (if x = [] then filterBoolean xs else x # filterBoolean xs)"

text \<open>\<open>String.prototype.startsWith\<close>.\<close>

fun startsWith :: "string \<Rightarrow> string \<Rightarrow> bool" where
  "startsWith s [] = True"
| "startsWith [] (p # ps) = False"
| "startsWith (c # s) (p # ps) = (c = p \<and> startsWith s ps)"

text \<open>
  \<open>String.prototype.toLowerCase\<close> on the bytes of a header value: the letters A to Z
  are mapped to a to z. No other byte of a header value lower-cases to an ASCII letter.
\<close>

definition lowerChar :: "char \<Rightarrow> char" where
  "lowerChar c =
     (case map_of (zip ''ABCDEFGHIJKLMNOPQRSTUVWXYZ'' ''abcdefghijklmnopqrstuvwxyz'') c of
        None \<Rightarrow> c
      | Some l \<Rightarrow> l)"

definition toLowerCase :: "string \<Rightarrow> string" where
  "toLowerCase s = map lowerChar s"

text \<open>
  The decimal text a template literal gives a whole number (for magnitudes below
  \<open>10^21\<close>, where JavaScript switches to exponent notation).
\<close>

definition digitChar :: "nat \<Rightarrow> char" where
  "digitChar d = ''0123456789'' ! d"

fun digitsOfNat :: "nat \<Rightarrow> string" where
  "digitsOfNat n =
     (if n < 10 then [digitChar n]
      else digitsOfNat (n div 10) @ [digitChar (n mod 10)])"

declare digitsOfNat.simps [simp del]

definition numberToString :: "int \<Rightarrow> string" where
  "numberToString i =
     (if i < 0 then CHR ''-'' # digitsOfNat (nat (- i)) else digitsOfNat (nat i))"

text \<open>\<open>Math.ceil(ms / 1000)\<close> on a whole number of milliseconds.\<close>

definition ceilDiv1000 :: "int \<Rightarrow> int" where
  "ceilDiv1000 ms = - ((- ms) div 1000)"

text \<open>
  The socket of an upgrade: the chunks written to it, in order, and whether it was
  destroyed.
\<close>

record socket =
  written :: "string list"
  destroyed :: bool

definition socketWrite :: "string \<Rightarrow> socket \<Rightarrow> socket" where
  "socketWrite chunk sock = sock\<lparr>written := written sock @ [chunk]\<rparr>"

definition socketDestroy :: "socket \<Rightarrow> socket" where
  "socketDestroy sock = sock\<lparr>destroyed := True\<rparr>"

text \<open>
  The \<open>ServerResponse\<close> of node:http, as the client gets it: the status and the
  headers, and how much of the response has gone out. Nothing is sent until the headers
  are flushed (\<open>headersSent\<close>); \<open>end\<close> sends what is pending together with the last
  chunk and finishes the response. In the state \<open>HeadersSent\<close> the headers have gone
  out, with whatever part of the body was streamed after them, which the record does not
  hold; \<open>Ended\<close> holds the chunk the response was finished with.
\<close>

datatype sentState = NothingSent | HeadersSent | Ended string

record response =
  statusCode :: nat
  resHeaders :: "(string \<times> string) list"
  resSent :: sentState

text \<open>
  \<open>res.statusCode = n\<close>. Once the headers are sent the assignment changes a property
  that is no longer sent: the response the client gets keeps its status.
\<close>

definition assignStatusCode :: "nat \<Rightarrow> response \<Rightarrow> response" where
  "assignStatusCode n res = (if resSent res = NothingSent then res\<lparr>statusCode := n\<rparr> else res)"

text \<open>
  \<open>res.setHeader(name, value)\<close> replaces a header of the same name; once the headers
  are sent it throws \<open>ERR_HTTP_HEADERS_SENT\<close>.
\<close>

definition setHeader :: "string \<Rightarrow> string \<Rightarrow> response \<Rightarrow> exn + response" where
  "setHeader name v res =
     (if resSent res = NothingSent then
        Inr (res\<lparr>resHeaders := (name, v) # filter (\<lambda>h. fst h \<noteq> name) (resHeaders res)\<rparr>)
      else Inl ''ERR_HTTP_HEADERS_SENT'')"

text \<open>
  \<open>res.end(chunk)\<close> finishes the response with the chunk; on a response that is
  already finished it writes nothing (and does not throw).
\<close>

definition resEnd :: "string \<Rightarrow> response \<Rightarrow> response" where
  "resEnd chunk res =
     (case resSent res of Ended body \<Rightarrow> res | _ \<Rightarrow> res\<lparr>resSent := Ended chunk\<rparr>)"

section \<open>writeUpgradeAuthFailure\<close>

text \<open>\<open>JSON.stringify\<close> of the fixed rate-limited error object.\<close>

definition rateLimitedJson :: string where
  "rateLimitedJson =
     ''{'' @ [CHR 0x22] @ ''error'' @ [CHR 0x22] @ '':{'' @ [CHR 0x22] @ ''message''
     @ [CHR 0x22] @ '':'' @ [CHR 0x22]
     @ ''Too many failed authentication attempts. Please try again later.''
     @ [CHR 0x22] @ '','' @ [CHR 0x22] @ ''type'' @ [CHR 0x22] @ '':'' @ [CHR 0x22]
     @ ''rate_limited'' @ [CHR 0x22] @ ''}}''"

definition retryAfterSecondsOf :: "gatewayAuthResult \<Rightarrow> int option" where
  "retryAfterSecondsOf auth =
     (case retryAfterMs auth of
        None \<Rightarrow> None
      | Some ms \<Rightarrow> if ms \<noteq> 0 \<and> ms > 0 then Some (ceilDiv1000 ms) else None)"

definition writeUpgradeAuthFailure :: "gatewayAuthResult \<Rightarrow> socket \<Rightarrow> socket" where
  "writeUpgradeAuthFailure auth sock =
     (if rateLimited auth = Some True then
        let retryAfterSeconds = retryAfterSecondsOf auth in
        socketWrite
          (joinWith CRLF
             (filterBoolean
                [Some ''HTTP/1.1 429 Too Many Requests'',
                 (case retryAfterSeconds of
                    None \<Rightarrow> None
                  | Some secs \<Rightarrow>
                      if secs \<noteq> 0 then Some (''Retry-After: '' @ numberToString secs)
                      else None),
                 Some ''Content-Type: application/json; charset=utf-8'',
                 Some ''Connection: close'',
                 Some [],
                 Some rateLimitedJson]))
          sock
      else
        socketWrite (''HTTP/1.1 401 Unauthorized'' @ CRLF @ ''Connection: close'' @ CRLF @ CRLF)
          sock)"

section \<open>The HTTP path: collaborators and options\<close>

text \<open>The config snapshot: the one setting the ingress layer reads from it.\<close>

record openClawConfig =
  gatewayTrustedProxies :: "string list option"

text \<open>The result of \<open>normalizeCanvasScopedUrl\<close> (canvas-capability.js).\<close>

record scopedCanvas =
  rewrittenUrl :: "string option"
  scopedCapability :: "string option"
  malformedScopedPath :: bool

datatype controlUiRootState = ControlUiRootState nat

datatype gatewayHttpResponsesConfig = GatewayHttpResponsesConfig nat

text \<open>
  A downstream handler is given the request and the response; it may write to the
  response, and it either reports whether it handled the request or throws.
\<close>

type_synonym handlerResult = "(exn + bool) \<times> response"

record httpAuthOptions =
  oAuth :: resolvedGatewayAuth
  oTrustedProxies :: "string list"
  oRateLimiter :: "authRateLimiter option"

record canvasHostHandler =
  handleHttpRequest :: "request \<Rightarrow> response \<Rightarrow> handlerResult"
  handleUpgrade :: "request \<Rightarrow> socket \<Rightarrow> string \<Rightarrow> (exn + bool) \<times> socket"

text \<open>
  The remaining imports of server-http.ts, parameters of the model. \<open>urlPathname\<close> is
  \<open>new URL(url, "http://localhost").pathname\<close>, which throws on an invalid URL.
\<close>

record httpImports = authImports +
  A2UI_PATH :: string
  CANVAS_HOST_PATH :: string
  CANVAS_WS_PATH :: string
  loadConfig :: "exn + openClawConfig"
  normalizeCanvasScopedUrl :: "string \<Rightarrow> scopedCanvas"
  urlPathname :: "string \<Rightarrow> exn + string"
  setDefaultSecurityHeaders :: "response \<Rightarrow> response"
  sendGatewayAuthFailure :: "response \<Rightarrow> gatewayAuthResult \<Rightarrow> response"
  handleToolsInvokeHttpRequest :: "request \<Rightarrow> response \<Rightarrow> httpAuthOptions \<Rightarrow> handlerResult"
  handleSlackHttpRequest :: "request \<Rightarrow> response \<Rightarrow> handlerResult"
  handleOpenResponsesHttpRequest ::
    "request \<Rightarrow> response \<Rightarrow> gatewayHttpResponsesConfig option \<Rightarrow> httpAuthOptions
       \<Rightarrow> handlerResult"
  handleOpenAiHttpRequest :: "request \<Rightarrow> response \<Rightarrow> httpAuthOptions \<Rightarrow> handlerResult"
  handleA2uiHttpRequest :: "request \<Rightarrow> response \<Rightarrow> handlerResult"
  handleControlUiAvatarRequest ::
    "request \<Rightarrow> response \<Rightarrow> string \<Rightarrow> openClawConfig \<Rightarrow> handlerResult"
  handleControlUiHttpRequest ::
    "request \<Rightarrow> response \<Rightarrow> string \<Rightarrow> openClawConfig \<Rightarrow> controlUiRootState option
       \<Rightarrow> handlerResult"

text \<open>The options of \<open>createGatewayHttpServer\<close>; the session set is in the world.\<close>

record gatewayHttpServerOpts =
  canvasHost :: "canvasHostHandler option"
  controlUiEnabled :: bool
  controlUiBasePath :: string
  controlUiRoot :: "controlUiRootState option"
  openAiChatCompletionsEnabled :: bool
  openResponsesEnabled :: bool
  openResponsesConfig :: "gatewayHttpResponsesConfig option"
  handleHooksRequest :: "request \<Rightarrow> response \<Rightarrow> handlerResult"
  handlePluginRequest :: "(request \<Rightarrow> response \<Rightarrow> handlerResult) option"
  resolvedAuth :: resolvedGatewayAuth
  rateLimiter :: "authRateLimiter option"

text \<open>The local variables of \<open>handleRequest\<close> once the request path is known.\<close>

record handleRequestLocals =
  lReq :: request
  lConfigSnapshot :: openClawConfig
  lTrustedProxies :: "string list"
  lScopedCanvas :: scopedCanvas
  lRequestPath :: string

text \<open>\<open>req.url ?? "/"\<close>.\<close>

definition urlOrRoot :: "request \<Rightarrow> string" where
  "urlOrRoot req = (case reqUrl req of None \<Rightarrow> ''/'' | Some u \<Rightarrow> u)"

definition isGatewayHealthPath :: "string \<Rightarrow> bool" where
  "isGatewayHealthPath pathname = (pathname = ''/healthz'' \<or> pathname = ''/health'')"

definition isCanvasPath :: "'a httpImports_scheme \<Rightarrow> string \<Rightarrow> bool" where
  "isCanvasPath im pathname =
     (pathname = A2UI_PATH im
      \<or> startsWith pathname (A2UI_PATH im @ ''/'')
      \<or> pathname = CANVAS_HOST_PATH im
      \<or> startsWith pathname (CANVAS_HOST_PATH im @ ''/'')
      \<or> pathname = CANVAS_WS_PATH im)"

text \<open>\<open>JSON.stringify(gatewayHealthPayload)\<close>.\<close>

definition gatewayHealthJson :: string where
  "gatewayHealthJson =
     ''{'' @ [CHR 0x22] @ ''ok'' @ [CHR 0x22] @ '':true,'' @ [CHR 0x22] @ ''status''
     @ [CHR 0x22] @ '':'' @ [CHR 0x22] @ ''ok'' @ [CHR 0x22] @ '','' @ [CHR 0x22]
     @ ''service'' @ [CHR 0x22] @ '':'' @ [CHR 0x22] @ ''openclaw-gateway'' @ [CHR 0x22]
     @ ''}''"

definition sendJson :: "nat \<Rightarrow> string \<Rightarrow> response \<Rightarrow> exn + response" where
  "sendJson status json res =
     (case setHeader ''Content-Type'' ''application/json; charset=utf-8''
             (assignStatusCode status res) of
        Inl e \<Rightarrow> Inl e
      | Inr res' \<Rightarrow> Inr (resEnd json res'))"

text \<open>
  The three statements \<open>res.statusCode = status\<close>, \<open>res.setHeader("Content-Type",
  "text/plain; charset=utf-8")\<close>, \<open>res.end(body)\<close> of the 404 and 500 answers.
\<close>

definition sendPlainText :: "nat \<Rightarrow> string \<Rightarrow> response \<Rightarrow> exn + response" where
  "sendPlainText status body res =
     (case setHeader ''Content-Type'' ''text/plain; charset=utf-8''
             (assignStatusCode status res) of
        Inl e \<Rightarrow> Inl e
      | Inr res' \<Rightarrow> Inr (resEnd body res'))"

text \<open>Lines 231 to 234: the 405 answer of the health path.\<close>

definition sendMethodNotAllowed :: "response \<Rightarrow> exn + response" where
  "sendMethodNotAllowed res =
     (case setHeader ''Allow'' ''GET'' (assignStatusCode 405 res) of
        Inl e \<Rightarrow> Inl e
      | Inr res' \<Rightarrow>
          (case setHeader ''Content-Type'' ''text/plain; charset=utf-8'' res' of
             Inl e \<Rightarrow> Inl e
           | Inr res'' \<Rightarrow> Inr (resEnd ''Method Not Allowed'' res'')))"

section \<open>The HTTP path: handleRequest\<close>

text \<open>
  Writing to the response of the world: by a collaborator that is given the response, and
  by statements of this module, which throw when \<open>setHeader\<close> does.
\<close>

definition respond :: "(response \<Rightarrow> response) \<Rightarrow> response world \<Rightarrow> response world" where
  "respond f w = w\<lparr>io := f (io w)\<rparr>"

definition writeResponse ::
  "(response \<Rightarrow> exn + response) \<Rightarrow> response world \<Rightarrow> (exn + unit) \<times> response world" where
  "writeResponse f w =
     (case f (io w) of Inl e \<Rightarrow> (Inl e, w) | Inr res' \<Rightarrow> (Inr (), w\<lparr>io := res'\<rparr>))"

text \<open>Calling a downstream handler: the call is recorded, the handler runs on the response.\<close>

definition callHandler ::
  "handlerName \<Rightarrow> (response \<Rightarrow> handlerResult) \<Rightarrow> response world
     \<Rightarrow> (exn + bool) \<times> response world" where
  "callHandler name h w =
     (case h (io w) of (r, res') \<Rightarrow> (r, (logEvent (CallHandler name) w)\<lparr>io := res'\<rparr>))"

text \<open>
  \<open>if (await h(req, res)) { return; }\<close> followed by the rest of the function: a throw
  leaves the \<open>try\<close> block, a handler that reports the request handled ends the function,
  and otherwise the rest runs.
\<close>

definition unlessHandled ::
  "('s \<Rightarrow> (exn + bool) \<times> 's) \<Rightarrow> ('s \<Rightarrow> (exn + unit) \<times> 's) \<Rightarrow> 's \<Rightarrow> (exn + unit) \<times> 's" where
  "unlessHandled h rest w =
     (case h w of
        (Inl e, w') \<Rightarrow> (Inl e, w')
      | (Inr handled, w') \<Rightarrow> if handled then (Inr (), w') else rest w')"

text \<open>Lines 343 to 345.\<close>

definition handleRequest_notFound :: "response world \<Rightarrow> (exn + unit) \<times> response world" where
  "handleRequest_notFound w = writeResponse (sendPlainText 404 ''Not Found'') w"

text \<open>Lines 323 to 341, then the 404.\<close>

definition handleRequest_controlUi ::
  "'a httpImports_scheme \<Rightarrow> gatewayHttpServerOpts \<Rightarrow> handleRequestLocals
     \<Rightarrow> response world \<Rightarrow> (exn + unit) \<times> response world" where
  "handleRequest_controlUi im opts L w =
     (if controlUiEnabled opts then
        unlessHandled
          (callHandler ControlUiAvatar
             (\<lambda>res. handleControlUiAvatarRequest im (lReq L) res (controlUiBasePath opts)
                      (lConfigSnapshot L)))
          (unlessHandled
             (callHandler ControlUiHttp
                (\<lambda>res. handleControlUiHttpRequest im (lReq L) res (controlUiBasePath opts)
                         (lConfigSnapshot L) (controlUiRoot opts)))
             handleRequest_notFound)
          w
      else handleRequest_notFound w)"

text \<open>Lines 300 to 322, then the rest.\<close>

definition handleRequest_canvas ::
  "'a httpImports_scheme \<Rightarrow> gatewayHttpServerOpts \<Rightarrow> int \<Rightarrow> handleRequestLocals
     \<Rightarrow> response world \<Rightarrow> (exn + unit) \<times> response world" where
  "handleRequest_canvas im opts nowMs L w =
     (case canvasHost opts of
        None \<Rightarrow> handleRequest_controlUi im opts L w
      | Some host \<Rightarrow>
          let handlers =
                unlessHandled (callHandler A2ui (handleA2uiHttpRequest im (lReq L)))
                  (unlessHandled (callHandler CanvasHostHttp (handleHttpRequest host (lReq L)))
                     (handleRequest_controlUi im opts L))
          in
            if isCanvasPath im (lRequestPath L) then
              (case authorizeCanvasRequest im nowMs
                      \<lparr>pReq = lReq L,
                       pAuth = resolvedAuth opts,
                       pTrustedProxies = lTrustedProxies L,
                       pCanvasCapability = scopedCapability (lScopedCanvas L),
                       pMalformedScopedPath = malformedScopedPath (lScopedCanvas L),
                       pRateLimiter = rateLimiter opts\<rparr>
                      w of
                 (Inl e, w') \<Rightarrow> (Inl e, w')
               | (Inr verdict, w') \<Rightarrow>
                   if \<not> ok verdict then
                     (Inr (), respond (\<lambda>res. sendGatewayAuthFailure im res verdict) w')
                   else handlers w')
            else handlers w)"

text \<open>Lines 277 to 299, then the rest.\<close>

definition handleRequest_openAi ::
  "'a httpImports_scheme \<Rightarrow> gatewayHttpServerOpts \<Rightarrow> int \<Rightarrow> handleRequestLocals
     \<Rightarrow> response world \<Rightarrow> (exn + unit) \<times> response world" where
  "handleRequest_openAi im opts nowMs L w =
     (if openAiChatCompletionsEnabled opts then
        unlessHandled
          (callHandler OpenAi
             (\<lambda>res. handleOpenAiHttpRequest im (lReq L) res
                      \<lparr>oAuth = resolvedAuth opts,
                       oTrustedProxies = lTrustedProxies L,
                       oRateLimiter = rateLimiter opts\<rparr>))
          (handleRequest_canvas im opts nowMs L)
          w
      else handleRequest_canvas im opts nowMs L w)"

definition handleRequest_openResponses ::
  "'a httpImports_scheme \<Rightarrow> gatewayHttpServerOpts \<Rightarrow> int \<Rightarrow> handleRequestLocals
     \<Rightarrow> response world \<Rightarrow> (exn + unit) \<times> response world" where
  "handleRequest_openResponses im opts nowMs L w =
     (if openResponsesEnabled opts then
        unlessHandled
          (callHandler OpenResponses
             (\<lambda>res. handleOpenResponsesHttpRequest im (lReq L) res (openResponsesConfig opts)
                      \<lparr>oAuth = resolvedAuth opts,
                       oTrustedProxies = lTrustedProxies L,
                       oRateLimiter = rateLimiter opts\<rparr>))
          (handleRequest_openAi im opts nowMs L)
          w
      else handleRequest_openAi im opts nowMs L w)"

text \<open>Lines 255 to 276, then the rest.\<close>

definition handleRequest_plugin ::
  "'a httpImports_scheme \<Rightarrow> gatewayHttpServerOpts \<Rightarrow> int \<Rightarrow> handleRequestLocals
     \<Rightarrow> response world \<Rightarrow> (exn + unit) \<times> response world" where
  "handleRequest_plugin im opts nowMs L w =
     (case handlePluginRequest opts of
        None \<Rightarrow> handleRequest_openResponses im opts nowMs L w
      | Some pluginHandler \<Rightarrow>
          let plugin =
                unlessHandled (callHandler Plugin (pluginHandler (lReq L)))
                  (handleRequest_openResponses im opts nowMs L)
          in
            if startsWith (lRequestPath L) ''/api/channels/'' then
              let w1 = logEvent (CallGetBearerToken (lReq L)) w;
                  token = getBearerToken im (lReq L);
                  params =
                    \<lparr>cpAuth = resolvedAuth opts,
                     cpConnectAuth =
                       (if truthyString token
                        then Some \<lparr>connectToken = token, connectPassword = token\<rparr>
                        else None),
                     cpReq = lReq L,
                     cpTrustedProxies = lTrustedProxies L,
                     cpRateLimiter = rateLimiter opts\<rparr>;
                  w2 = logEvent (CallAuthorizeGatewayConnect params) w1
              in (case authorizeGatewayConnect im params of
                    Inl e \<Rightarrow> (Inl e, w2)
                  | Inr authResult \<Rightarrow>
                      if \<not> ok authResult then
                        (Inr (), respond (\<lambda>res. sendGatewayAuthFailure im res authResult) w2)
                      else plugin w2)
            else plugin w)"

text \<open>Lines 229 to 254, then the rest.\<close>

definition handleRequest_route ::
  "'a httpImports_scheme \<Rightarrow> gatewayHttpServerOpts \<Rightarrow> int \<Rightarrow> handleRequestLocals
     \<Rightarrow> response world \<Rightarrow> (exn + unit) \<times> response world" where
  "handleRequest_route im opts nowMs L w =
     (if isGatewayHealthPath (lRequestPath L) then
        (if reqMethod (lReq L) \<noteq> Some ''GET'' then writeResponse sendMethodNotAllowed w
         else writeResponse (sendJson 200 gatewayHealthJson) w)
      else
        unlessHandled (callHandler Hooks (handleHooksRequest opts (lReq L)))
          (unlessHandled
             (callHandler ToolsInvoke
                (\<lambda>res. handleToolsInvokeHttpRequest im (lReq L) res
                         \<lparr>oAuth = resolvedAuth opts,
                          oTrustedProxies = lTrustedProxies L,
                          oRateLimiter = rateLimiter opts\<rparr>))
             (unlessHandled (callHandler Slack (handleSlackHttpRequest im (lReq L)))
                (handleRequest_plugin im opts nowMs L)))
          w)"

text \<open>Lines 218 to 228: the body of the \<open>try\<close> block up to the request path.\<close>

definition handleRequest_try ::
  "'a httpImports_scheme \<Rightarrow> gatewayHttpServerOpts \<Rightarrow> int \<Rightarrow> request
     \<Rightarrow> response world \<Rightarrow> (exn + unit) \<times> response world" where
  "handleRequest_try im opts nowMs req w =
     (let w1 = logEvent CallLoadConfig w in
      case loadConfig im of
        Inl e \<Rightarrow> (Inl e, w1)
      | Inr configSnapshot \<Rightarrow>
          let trustedProxies =
                (case gatewayTrustedProxies configSnapshot of None \<Rightarrow> [] | Some ps \<Rightarrow> ps);
              scoped =
                normalizeCanvasScopedUrl im (urlOrRoot req)
          in
            if malformedScopedPath scoped then
              (Inr (), respond (\<lambda>res. sendGatewayAuthFailure im res authUnauthorized) w1)
            else
              let req' = (if truthyString (rewrittenUrl scoped)
                          then req\<lparr>reqUrl := rewrittenUrl scoped\<rparr> else req)
              in (case urlPathname im (urlOrRoot req') of
                    Inl e \<Rightarrow> (Inl e, w1)
                  | Inr requestPath \<Rightarrow>
                      handleRequest_route im opts nowMs
                        \<lparr>lReq = req',
                         lConfigSnapshot = configSnapshot,
                         lTrustedProxies = trustedProxies,
                         lScopedCanvas = scoped,
                         lRequestPath = requestPath\<rparr>
                        w1))"

text \<open>
  Lines 346 to 350, the \<open>catch\<close> block, which binds no error value. When its
  \<open>setHeader\<close> throws, the promise of \<open>handleRequest\<close> is rejected; the caller
  discards it (\<open>void handleRequest(req, res)\<close>), and the response stays as it is.
\<close>

definition handleRequest_catch :: "response world \<Rightarrow> response world" where
  "handleRequest_catch w =
     (case sendPlainText 500 ''Internal Server Error'' (io w) of
        Inl e \<Rightarrow> w
      | Inr res' \<Rightarrow> w\<lparr>io := res'\<rparr>)"

text \<open>
  \<open>handleRequest\<close>: the security headers, the return on a WebSocket upgrade request,
  and the \<open>try\<close> block with its \<open>catch\<close>.
\<close>

definition isWebSocketUpgradeRequest :: "request \<Rightarrow> bool" where
  "isWebSocketUpgradeRequest req =
     (toLowerCase (case map_of (reqHeaders req) ''upgrade'' of None \<Rightarrow> [] | Some v \<Rightarrow> v)
        = ''websocket'')"

definition handleRequest ::
  "'a httpImports_scheme \<Rightarrow> gatewayHttpServerOpts \<Rightarrow> int \<Rightarrow> request
     \<Rightarrow> response world \<Rightarrow> response world" where
  "handleRequest im opts nowMs req w =
     (let w0 = respond (setDefaultSecurityHeaders im) w in
      if isWebSocketUpgradeRequest req then w0
      else (case handleRequest_try im opts nowMs req w0 of
              (Inl e, w') \<Rightarrow> handleRequest_catch w'
            | (Inr u, w') \<Rightarrow> w'))"

section \<open>The upgrade path: attachGatewayUpgradeHandler\<close>

text \<open>
  The options of \<open>attachGatewayUpgradeHandler\<close>; of the WebSocket server only
  \<open>handleUpgrade\<close> is used. The session set is in the world.
\<close>

record gatewayUpgradeOpts =
  uCanvasHost :: "canvasHostHandler option"
  uResolvedAuth :: resolvedGatewayAuth
  uRateLimiter :: "authRateLimiter option"
  wssHandleUpgrade :: "request \<Rightarrow> socket \<Rightarrow> string \<Rightarrow> (exn + unit) \<times> socket"

definition onSocket :: "(socket \<Rightarrow> socket) \<Rightarrow> socket world \<Rightarrow> socket world" where
  "onSocket f w = w\<lparr>io := f (io w)\<rparr>"

text \<open>Lines 401 to 403.\<close>

definition onUpgrade_wss ::
  "gatewayUpgradeOpts \<Rightarrow> request \<Rightarrow> string \<Rightarrow> socket world \<Rightarrow> (exn + unit) \<times> socket world" where
  "onUpgrade_wss opts req head w =
     (case wssHandleUpgrade opts req (io w) head of
        (r, sock') \<Rightarrow> (r, (logEvent CallWssHandleUpgrade w)\<lparr>io := sock'\<rparr>))"

text \<open>Lines 397 to 399, then the rest.\<close>

definition onUpgrade_canvasHost ::
  "canvasHostHandler \<Rightarrow> gatewayUpgradeOpts \<Rightarrow> request \<Rightarrow> string
     \<Rightarrow> socket world \<Rightarrow> (exn + unit) \<times> socket world" where
  "onUpgrade_canvasHost host opts req head w =
     unlessHandled
       (\<lambda>w. case handleUpgrade host req (io w) head of
               (r, sock') \<Rightarrow> (r, (logEvent CallCanvasHostHandleUpgrade w)\<lparr>io := sock'\<rparr>))
       (onUpgrade_wss opts req head)
       w"

text \<open>Lines 368 to 403: the body of the async callback.\<close>

definition onUpgrade_body ::
  "'a httpImports_scheme \<Rightarrow> gatewayUpgradeOpts \<Rightarrow> int \<Rightarrow> request \<Rightarrow> string
     \<Rightarrow> socket world \<Rightarrow> (exn + unit) \<times> socket world" where
  "onUpgrade_body im opts nowMs req head w =
     (let scoped =
            normalizeCanvasScopedUrl im (urlOrRoot req)
      in
        if malformedScopedPath scoped then
          (Inr (), onSocket socketDestroy (onSocket (writeUpgradeAuthFailure authUnauthorized) w))
        else
          let req' = (if truthyString (rewrittenUrl scoped)
                      then req\<lparr>reqUrl := rewrittenUrl scoped\<rparr> else req)
          in (case uCanvasHost opts of
                None \<Rightarrow> onUpgrade_wss opts req' head w
              | Some host \<Rightarrow>
                  (case urlPathname im (urlOrRoot req') of
                     Inl e \<Rightarrow> (Inl e, w)
                   | Inr pathname \<Rightarrow>
                       if pathname = CANVAS_WS_PATH im then
                         let w1 = logEvent CallLoadConfig w in
                         (case loadConfig im of
                            Inl e \<Rightarrow> (Inl e, w1)
                          | Inr configSnapshot \<Rightarrow>
                              (case authorizeCanvasRequest im nowMs
                                      \<lparr>pReq = req',
                                       pAuth = uResolvedAuth opts,
                                       pTrustedProxies =
                                         (case gatewayTrustedProxies configSnapshot of
                                            None \<Rightarrow> [] | Some ps \<Rightarrow> ps),
                                       pCanvasCapability = scopedCapability scoped,
                                       pMalformedScopedPath = malformedScopedPath scoped,
                                       pRateLimiter = uRateLimiter opts\<rparr>
                                      w1 of
                                 (Inl e, w') \<Rightarrow> (Inl e, w')
                               | (Inr verdict, w') \<Rightarrow>
                                   if \<not> ok verdict then
                                     (Inr (),
                                      onSocket socketDestroy
                                        (onSocket (writeUpgradeAuthFailure verdict) w'))
                                   else onUpgrade_canvasHost host opts req' head w'))
                       else onUpgrade_canvasHost host opts req' head w)))"

text \<open>The callback of the \<open>upgrade\<close> event: the body, and \<open>.catch(() => socket.destroy())\<close>.\<close>

definition onUpgrade ::
  "'a httpImports_scheme \<Rightarrow> gatewayUpgradeOpts \<Rightarrow> int \<Rightarrow> request \<Rightarrow> string
     \<Rightarrow> socket world \<Rightarrow> socket world" where
  "onUpgrade im opts nowMs req head w =
     (case onUpgrade_body im opts nowMs req head w of
        (Inl e, w') \<Rightarrow> onSocket socketDestroy w'
      | (Inr u, w') \<Rightarrow> w')"

section \<open>The capability registry: what a match is\<close>

text \<open>
  A session holds a capability token when both of its capability fields are set (the
  guard of the source: a non-empty token and a non-zero expiry).
\<close>

definition holdsCapabilityToken :: "gatewayWsClient \<Rightarrow> bool" where
  "holdsCapabilityToken client =
     (truthyString (canvasCapability client) \<and> truthyNumber (canvasCapabilityExpiresAtMs client))"

definition expiresAfter :: "int \<Rightarrow> gatewayWsClient \<Rightarrow> bool" where
  "expiresAfter nowMs client =
     (case canvasCapabilityExpiresAtMs client of None \<Rightarrow> False | Some e \<Rightarrow> nowMs < e)"

definition storedTokenEquals ::
  "'a registryImports_scheme \<Rightarrow> string \<Rightarrow> gatewayWsClient \<Rightarrow> bool" where
  "storedTokenEquals im capability client =
     (case canvasCapability client of
        None \<Rightarrow> False
      | Some cap \<Rightarrow> safeEqualSecret im cap capability)"

text \<open>
  The session the claims speak of: node-class, holding a token whose expiry is strictly
  after the current time, the stored token equal to the presented one under the secret
  comparator.
\<close>

definition sessionGrants ::
  "'a registryImports_scheme \<Rightarrow> int \<Rightarrow> string \<Rightarrow> gatewayWsClient \<Rightarrow> bool" where
  "sessionGrants im nowMs capability client =
     (isNodeWsClient im client \<and> holdsCapabilityToken client
      \<and> expiresAfter nowMs client \<and> storedTokenEquals im capability client)"

definition renewed ::
  "'a registryImports_scheme \<Rightarrow> int \<Rightarrow> gatewayWsClient \<Rightarrow> gatewayWsClient" where
  "renewed im nowMs client =
     client\<lparr>canvasCapabilityExpiresAtMs := Some (nowMs + CANVAS_CAPABILITY_TTL_MS im)\<rparr>"

text \<open>The present expiries of a session list, position by position.\<close>

definition expiries :: "gatewayWsClient list \<Rightarrow> int option list" where
  "expiries cs = map canvasCapabilityExpiresAtMs cs"

section \<open>An example deployment\<close>

text \<open>
  A concrete instance of the imports, used to run the model: the comparator is equality
  of strings, the TTL is 5000 ms, a request is local-direct when it comes from
  127.0.0.1, the bearer credential is the \<open>authorization\<close> header after \<open>Bearer \<close>, and
  the gateway check accepts the configured token or password, reports the credential
  \<open>throttled\<close> as rate-limited, and denies anything else.
\<close>

definition exampleRateLimited :: gatewayAuthResult where
  "exampleRateLimited =
     \<lparr>ok = False, reason = Some ''rate_limited'', rateLimited = Some True,
      retryAfterMs = Some 1500\<rparr>"

definition exampleAuthorizeGatewayConnect :: "gatewayConnectParams \<Rightarrow> exn + gatewayAuthResult" where
  "exampleAuthorizeGatewayConnect params =
     (case cpConnectAuth params of
        None \<Rightarrow> Inr authUnauthorized
      | Some c \<Rightarrow>
          if connectToken c = Some ''throttled'' then Inr exampleRateLimited
          else if connectToken c = Some ''boom'' then Inl ''limiter store unavailable''
          else if connectToken c \<noteq> None \<and> connectToken c = authToken (cpAuth params)
            then Inr authOk
          else if connectPassword c \<noteq> None \<and> connectPassword c = authPassword (cpAuth params)
            then Inr authOk
          else Inr authUnauthorized)"

definition exampleGetBearerToken :: "request \<Rightarrow> string option" where
  "exampleGetBearerToken req =
     (case map_of (reqHeaders req) ''authorization'' of
        None \<Rightarrow> None
      | Some v \<Rightarrow> if startsWith v ''Bearer '' then Some (drop 7 v) else None)"

text \<open>A write by an example collaborator: when it throws, the response is as it was.\<close>

definition orAsItWas :: "response \<Rightarrow> exn + response \<Rightarrow> response" where
  "orAsItWas res r = (case r of Inl e \<Rightarrow> res | Inr res' \<Rightarrow> res')"

definition exampleSendGatewayAuthFailure :: "response \<Rightarrow> gatewayAuthResult \<Rightarrow> response" where
  "exampleSendGatewayAuthFailure res auth =
     (if rateLimited auth = Some True then orAsItWas res (sendJson 429 rateLimitedJson res)
      else orAsItWas res (sendPlainText 401 ''Unauthorized'' res))"

text \<open>
  The example normaliser reads \<open>/cap/<token>/<path>\<close> as the path \<open>/<path>\<close> scoped
  by the token, and flags a \<open>/cap/\<close> URL without token or without path as malformed.
\<close>

definition exampleNormalizeCanvasScopedUrl :: "string \<Rightarrow> scopedCanvas" where
  "exampleNormalizeCanvasScopedUrl url =
     (if \<not> startsWith url ''/cap/'' then
        \<lparr>rewrittenUrl = None, scopedCapability = None, malformedScopedPath = False\<rparr>
      else
        let rest = drop 5 url;
            tok = takeWhile (\<lambda>c. c \<noteq> CHR ''/'') rest;
            path = dropWhile (\<lambda>c. c \<noteq> CHR ''/'') rest
        in if tok = [] \<or> path = [] then
             \<lparr>rewrittenUrl = None, scopedCapability = None, malformedScopedPath = True\<rparr>
           else
             \<lparr>rewrittenUrl = Some path, scopedCapability = Some tok,
              malformedScopedPath = False\<rparr>)"

definition declines :: "request \<Rightarrow> response \<Rightarrow> handlerResult" where
  "declines req res = (Inr False, res)"

definition exampleImports :: httpImports where
  "exampleImports =
     \<lparr>safeEqualSecret = (\<lambda>a b. a = b),
      normalizeGatewayClientMode = (\<lambda>m. m),
      GATEWAY_CLIENT_MODES_NODE = ''node'',
      CANVAS_CAPABILITY_TTL_MS = 5000,
      isLocalDirectRequest = (\<lambda>req proxies. reqRemoteAddress req = Some ''127.0.0.1''),
      getBearerToken = exampleGetBearerToken,
      authorizeGatewayConnect = exampleAuthorizeGatewayConnect,
      A2UI_PATH = ''/a2ui'',
      CANVAS_HOST_PATH = ''/canvas'',
      CANVAS_WS_PATH = ''/canvas-ws'',
      loadConfig = Inr \<lparr>gatewayTrustedProxies = None\<rparr>,
      normalizeCanvasScopedUrl = exampleNormalizeCanvasScopedUrl,
      urlPathname = (\<lambda>u. if startsWith u ''/'' then Inr (takeWhile (\<lambda>c. c \<noteq> CHR ''?'') u)
                         else Inl ''Invalid URL''),
      setDefaultSecurityHeaders =
        (\<lambda>res. orAsItWas res (setHeader ''X-Content-Type-Options'' ''nosniff'' res)),
      sendGatewayAuthFailure = exampleSendGatewayAuthFailure,
      handleToolsInvokeHttpRequest = (\<lambda>req res opts. (Inr False, res)),
      handleSlackHttpRequest = declines,
      handleOpenResponsesHttpRequest = (\<lambda>req res cfg opts. (Inr False, res)),
      handleOpenAiHttpRequest = (\<lambda>req res opts. (Inr False, res)),
      handleA2uiHttpRequest = declines,
      handleControlUiAvatarRequest = (\<lambda>req res base cfg. (Inr False, res)),
      handleControlUiHttpRequest = (\<lambda>req res base cfg root. (Inr False, res))\<rparr>"

definition exampleAuth :: resolvedGatewayAuth where
  "exampleAuth =
     \<lparr>authMode = ''token'', authToken = Some ''test-token'', authPassword = None,
      allowTailscale = True\<rparr>"

text \<open>Two sessions: a dashboard client, and a node holding the token \<open>T\<close> until 5000.\<close>

definition uiSession :: gatewayWsClient where
  "uiSession =
     \<lparr>connectRole = Some ''operator'', connectClientMode = Some ''ui'',
      canvasCapability = None, canvasCapabilityExpiresAtMs = None\<rparr>"

definition nodeSession :: gatewayWsClient where
  "nodeSession =
     \<lparr>connectRole = Some ''node'', connectClientMode = Some ''node'',
      canvasCapability = Some ''T'', canvasCapabilityExpiresAtMs = Some 5000\<rparr>"

definition remoteRequest :: "string \<Rightarrow> (string \<times> string) list \<Rightarrow> request" where
  "remoteRequest url headers =
     \<lparr>reqMethod = Some ''GET'', reqUrl = Some url, reqHeaders = headers,
      reqRemoteAddress = Some ''203.0.113.9''\<rparr>"

definition freshResponse :: response where
  "freshResponse = \<lparr>statusCode = 200, resHeaders = [], resSent = NothingSent\<rparr>"

definition freshSocket :: socket where
  "freshSocket = \<lparr>written = [], destroyed = False\<rparr>"

definition exampleWorld :: "'io \<Rightarrow> 'io world" where
  "exampleWorld x = \<lparr>io = x, clients = [uiSession, nodeSession], trace = []\<rparr>"

section \<open>Renewal and the stored expiry\<close>

text \<open>
  Renewal never shortens: position by position, a session that had an expiry before the
  call has one after it that is at least as late.
\<close>

definition notShortened :: "gatewayWsClient list \<Rightarrow> gatewayWsClient list \<Rightarrow> bool" where
  "notShortened before after =
     list_all2
       (\<lambda>b a. case canvasCapabilityExpiresAtMs b of
                 None \<Rightarrow> True
               | Some e \<Rightarrow>
                   (case canvasCapabilityExpiresAtMs a of None \<Rightarrow> False | Some e' \<Rightarrow> e \<le> e'))
       before after"

text \<open>A node whose stored expiry lies further ahead than one TTL from time 4000.\<close>

definition longLivedSession :: gatewayWsClient where
  "longLivedSession = nodeSession\<lparr>canvasCapabilityExpiresAtMs := Some 20000\<rparr>"

section \<open>The auth resolver: what the claims speak of\<close>

text \<open>
  Whether the capability step of the resolver succeeds: a truthy capability was
  extracted and the registry accepts it.
\<close>

definition capabilityValid ::
  "'a authImports_scheme \<Rightarrow> int \<Rightarrow> canvasAuthParams \<Rightarrow> 'io world \<Rightarrow> bool" where
  "capabilityValid im nowMs p w =
     (case pCanvasCapability p of
        None \<Rightarrow> False
      | Some capability \<Rightarrow>
          capability \<noteq> []
          \<and> fst (hasAuthorizedNodeWsClientForCanvasCapability im nowMs (clients w) capability))"

text \<open>The argument the resolver passes to the gateway check for the bearer credential.\<close>

definition bearerCheckParams :: "canvasAuthParams \<Rightarrow> string \<Rightarrow> gatewayConnectParams" where
  "bearerCheckParams p token =
     \<lparr>cpAuth = (pAuth p)\<lparr>allowTailscale := False\<rparr>,
      cpConnectAuth = Some \<lparr>connectToken = Some token, connectPassword = Some token\<rparr>,
      cpReq = pReq p,
      cpTrustedProxies = pTrustedProxies p,
      cpRateLimiter = pRateLimiter p\<rparr>"

text \<open>The events a run added to the trace, and the gateway checks among them.\<close>

definition newEvents :: "'io world \<Rightarrow> 'io world \<Rightarrow> event list" where
  "newEvents before after = drop (length (trace before)) (trace after)"

fun gatewayConnectCalls :: "event list \<Rightarrow> gatewayConnectParams list" where
  "gatewayConnectCalls [] = []"
| "gatewayConnectCalls (CallAuthorizeGatewayConnect params # evs) =
     params # gatewayConnectCalls evs"
| "gatewayConnectCalls (ev # evs) = gatewayConnectCalls evs"

definition exampleParams :: "(string \<times> string) list \<Rightarrow> string option \<Rightarrow> canvasAuthParams" where
  "exampleParams headers capability =
     \<lparr>pReq = remoteRequest ''/canvas/index.html'' headers,
      pAuth = exampleAuth,
      pTrustedProxies = [],
      pCanvasCapability = capability,
      pMalformedScopedPath = False,
      pRateLimiter = None\<rparr>"

text \<open>A request from the local machine.\<close>

definition localRequest :: request where
  "localRequest =
     \<lparr>reqMethod = Some ''GET'', reqUrl = Some ''/canvas/index.html'', reqHeaders = [],
      reqRemoteAddress = Some ''127.0.0.1''\<rparr>"

section \<open>The upgrade failure response and example options\<close>

text \<open>
  The body of an HTTP message: what follows the first empty line, if there is one.
\<close>

fun httpMessageBody :: "string \<Rightarrow> string option" where
  "httpMessageBody (a # b # c # d # rest) =
     (if [a, b, c, d] = [CHR 0x0D, CHR 0x0A, CHR 0x0D, CHR 0x0A] then Some rest
      else httpMessageBody (b # c # d # rest))"
| "httpMessageBody s = None"

text \<open>The bare 401 response of the upgrade path.\<close>

definition upgradeUnauthorizedText :: string where
  "upgradeUnauthorizedText =
     ''HTTP/1.1 401 Unauthorized'' @ CRLF @ ''Connection: close'' @ CRLF @ CRLF"

text \<open>
  Options for the examples: every optional handler configured, every feature enabled;
  the handlers decline.
\<close>

definition exampleCanvasHost :: canvasHostHandler where
  "exampleCanvasHost =
     \<lparr>handleHttpRequest = declines,
      handleUpgrade = (\<lambda>req sock head. (Inr False, sock))\<rparr>"

definition exampleOpts :: gatewayHttpServerOpts where
  "exampleOpts =
     \<lparr>canvasHost = Some exampleCanvasHost,
      controlUiEnabled = True,
      controlUiBasePath = ''/ui'',
      controlUiRoot = None,
      openAiChatCompletionsEnabled = True,
      openResponsesEnabled = True,
      openResponsesConfig = None,
      handleHooksRequest = declines,
      handlePluginRequest = Some declines,
      resolvedAuth = exampleAuth,
      rateLimiter = None\<rparr>"

definition exampleUpgradeOpts :: gatewayUpgradeOpts where
  "exampleUpgradeOpts =
     \<lparr>uCanvasHost = Some exampleCanvasHost,
      uResolvedAuth = exampleAuth,
      uRateLimiter = None,
      wssHandleUpgrade = (\<lambda>req sock head. (Inr (), sock))\<rparr>"

section \<open>The request router as the specification words it\<close>

text \<open>
  A stage is one candidate of the priority order. It may throw; otherwise it reports
  whether it finished the request (a handler that claimed it, or a gate that answered
  with a denial) or passes it on.
\<close>

type_synonym stage = "response world \<Rightarrow> (exn + bool) \<times> response world"

definition passOn :: stage where
  "passOn w = (Inr False, w)"

text \<open>Try the stages in list order and stop at the first that throws or finishes.\<close>

fun firstToFinish :: "stage list \<Rightarrow> stage" where
  "firstToFinish [] w = (Inr False, w)"
| "firstToFinish (s # ss) w =
     (case s w of
        (Inl e, w') \<Rightarrow> (Inl e, w')
      | (Inr done, w') \<Rightarrow> if done then (Inr True, w') else firstToFinish ss w')"

definition healthCheckStage :: "handleRequestLocals \<Rightarrow> stage" where
  "healthCheckStage L w =
     (if isGatewayHealthPath (lRequestPath L) then
        (case writeResponse
                (if reqMethod (lReq L) = Some ''GET'' then sendJson 200 gatewayHealthJson
                 else sendMethodNotAllowed)
                w of
           (Inl e, w') \<Rightarrow> (Inl e, w')
         | (Inr u, w') \<Rightarrow> (Inr True, w'))
      else passOn w)"

definition hooksStage :: "gatewayHttpServerOpts \<Rightarrow> handleRequestLocals \<Rightarrow> stage" where
  "hooksStage opts L = callHandler Hooks (handleHooksRequest opts (lReq L))"

definition handlerAuthOptions :: "gatewayHttpServerOpts \<Rightarrow> handleRequestLocals \<Rightarrow> httpAuthOptions" where
  "handlerAuthOptions opts L =
     \<lparr>oAuth = resolvedAuth opts, oTrustedProxies = lTrustedProxies L,
      oRateLimiter = rateLimiter opts\<rparr>"

definition toolsInvokeStage ::
  "'a httpImports_scheme \<Rightarrow> gatewayHttpServerOpts \<Rightarrow> handleRequestLocals \<Rightarrow> stage" where
  "toolsInvokeStage im opts L =
     callHandler ToolsInvoke
       (\<lambda>res. handleToolsInvokeHttpRequest im (lReq L) res (handlerAuthOptions opts L))"

definition slackStage :: "'a httpImports_scheme \<Rightarrow> handleRequestLocals \<Rightarrow> stage" where
  "slackStage im L = callHandler Slack (handleSlackHttpRequest im (lReq L))"

text \<open>
  The gateway re-authorization of channel routes: the bearer credential, if any, is
  checked against the configured gateway auth; a denial answers the request.
\<close>

definition gatewayReauthorization ::
  "'a httpImports_scheme \<Rightarrow> gatewayHttpServerOpts \<Rightarrow> handleRequestLocals \<Rightarrow> stage" where
  "gatewayReauthorization im opts L w =
     (let token = getBearerToken im (lReq L);
          params =
            \<lparr>cpAuth = resolvedAuth opts,
             cpConnectAuth =
               (if truthyString token
                then Some \<lparr>connectToken = token, connectPassword = token\<rparr> else None),
             cpReq = lReq L,
             cpTrustedProxies = lTrustedProxies L,
             cpRateLimiter = rateLimiter opts\<rparr>;
          w' = logEvent (CallAuthorizeGatewayConnect params)
                 (logEvent (CallGetBearerToken (lReq L)) w)
      in case authorizeGatewayConnect im params of
           Inl e \<Rightarrow> (Inl e, w')
         | Inr verdict \<Rightarrow>
             if ok verdict then (Inr False, w')
             else (Inr True, respond (\<lambda>res. sendGatewayAuthFailure im res verdict) w'))"

definition pluginStage ::
  "'a httpImports_scheme \<Rightarrow> gatewayHttpServerOpts \<Rightarrow> handleRequestLocals \<Rightarrow> stage" where
  "pluginStage im opts L =
     (case handlePluginRequest opts of
        None \<Rightarrow> passOn
      | Some pluginHandler \<Rightarrow>
          firstToFinish
            [if startsWith (lRequestPath L) ''/api/channels/''
             then gatewayReauthorization im opts L else passOn,
             callHandler Plugin (pluginHandler (lReq L))])"

definition openResponsesStage ::
  "'a httpImports_scheme \<Rightarrow> gatewayHttpServerOpts \<Rightarrow> handleRequestLocals \<Rightarrow> stage" where
  "openResponsesStage im opts L =
     (if openResponsesEnabled opts then
        callHandler OpenResponses
          (\<lambda>res. handleOpenResponsesHttpRequest im (lReq L) res (openResponsesConfig opts)
                   (handlerAuthOptions opts L))
      else passOn)"

definition openAiStage ::
  "'a httpImports_scheme \<Rightarrow> gatewayHttpServerOpts \<Rightarrow> handleRequestLocals \<Rightarrow> stage" where
  "openAiStage im opts L =
     (if openAiChatCompletionsEnabled opts then
        callHandler OpenAi
          (\<lambda>res. handleOpenAiHttpRequest im (lReq L) res (handlerAuthOptions opts L))
      else passOn)"

text \<open>The auth gate of canvas paths: a denial of the auth resolver answers the request.\<close>

definition canvasAuthGate ::
  "'a httpImports_scheme \<Rightarrow> gatewayHttpServerOpts \<Rightarrow> int \<Rightarrow> handleRequestLocals \<Rightarrow> stage" where
  "canvasAuthGate im opts nowMs L w =
     (case authorizeCanvasRequest im nowMs
             \<lparr>pReq = lReq L,
              pAuth = resolvedAuth opts,
              pTrustedProxies = lTrustedProxies L,
              pCanvasCapability = scopedCapability (lScopedCanvas L),
              pMalformedScopedPath = malformedScopedPath (lScopedCanvas L),
              pRateLimiter = rateLimiter opts\<rparr>
             w of
        (Inl e, w') \<Rightarrow> (Inl e, w')
      | (Inr verdict, w') \<Rightarrow>
          if ok verdict then (Inr False, w')
          else (Inr True, respond (\<lambda>res. sendGatewayAuthFailure im res verdict) w'))"

definition canvasHostStage ::
  "'a httpImports_scheme \<Rightarrow> gatewayHttpServerOpts \<Rightarrow> int \<Rightarrow> handleRequestLocals \<Rightarrow> stage" where
  "canvasHostStage im opts nowMs L =
     (case canvasHost opts of
        None \<Rightarrow> passOn
      | Some host \<Rightarrow>
          firstToFinish
            [if isCanvasPath im (lRequestPath L) then canvasAuthGate im opts nowMs L else passOn,
             callHandler A2ui (handleA2uiHttpRequest im (lReq L)),
             callHandler CanvasHostHttp (handleHttpRequest host (lReq L))])"

definition controlUiStage ::
  "'a httpImports_scheme \<Rightarrow> gatewayHttpServerOpts \<Rightarrow> handleRequestLocals \<Rightarrow> stage" where
  "controlUiStage im opts L =
     (if controlUiEnabled opts then
        firstToFinish
          [callHandler ControlUiAvatar
             (\<lambda>res. handleControlUiAvatarRequest im (lReq L) res (controlUiBasePath opts)
                      (lConfigSnapshot L)),
           callHandler ControlUiHttp
             (\<lambda>res. handleControlUiHttpRequest im (lReq L) res (controlUiBasePath opts)
                      (lConfigSnapshot L) (controlUiRoot opts))]
      else passOn)"

text \<open>The documented priority order.\<close>

definition routerStages ::
  "'a httpImports_scheme \<Rightarrow> gatewayHttpServerOpts \<Rightarrow> int \<Rightarrow> handleRequestLocals
     \<Rightarrow> stage list" where
  "routerStages im opts nowMs L =
     [healthCheckStage L,
      hooksStage opts L,
      toolsInvokeStage im opts L,
      slackStage im L,
      pluginStage im opts L,
      openResponsesStage im opts L,
      openAiStage im opts L,
      canvasHostStage im opts nowMs L,
      controlUiStage im opts L]"

text \<open>
  After the stages: a throw is passed on, a finished request is left as it is, and a
  request no stage finished is answered 404 Not Found.
\<close>

definition orNotFound ::
  "(exn + bool) \<times> response world \<Rightarrow> (exn + unit) \<times> response world" where
  "orNotFound r =
     (case r of
        (Inl e, w') \<Rightarrow> (Inl e, w')
      | (Inr done, w') \<Rightarrow>
          if done then (Inr (), w') else writeResponse (sendPlainText 404 ''Not Found'') w')"

definition requestRouter ::
  "'a httpImports_scheme \<Rightarrow> gatewayHttpServerOpts \<Rightarrow> int \<Rightarrow> handleRequestLocals
     \<Rightarrow> response world \<Rightarrow> (exn + unit) \<times> response world" where
  "requestRouter im opts nowMs L w = orNotFound (firstToFinish (routerStages im opts nowMs L) w)"

text \<open>The handlers called, in the order of their calls.\<close>

fun handlerCalls :: "event list \<Rightarrow> handlerName list" where
  "handlerCalls [] = []"
| "handlerCalls (CallHandler name # evs) = name # handlerCalls evs"
| "handlerCalls (ev # evs) = handlerCalls evs"

text \<open>
  The request as the router sees it (the URL rewritten by the normaliser), and the local
  variables of \<open>handleRequest\<close> for a loaded config and a parsed path.
\<close>

definition rewrittenRequest :: "'a httpImports_scheme \<Rightarrow> request \<Rightarrow> request" where
  "rewrittenRequest im req =
     (if truthyString (rewrittenUrl (normalizeCanvasScopedUrl im (urlOrRoot req)))
      then req\<lparr>reqUrl := rewrittenUrl (normalizeCanvasScopedUrl im (urlOrRoot req))\<rparr>
      else req)"

definition requestLocals ::
  "'a httpImports_scheme \<Rightarrow> openClawConfig \<Rightarrow> request \<Rightarrow> string \<Rightarrow> handleRequestLocals" where
  "requestLocals im cfg req path =
     \<lparr>lReq = rewrittenRequest im req,
      lConfigSnapshot = cfg,
      lTrustedProxies = (case gatewayTrustedProxies cfg of None \<Rightarrow> [] | Some ps \<Rightarrow> ps),
      lScopedCanvas = normalizeCanvasScopedUrl im (urlOrRoot req),
      lRequestPath = path\<rparr>"

text \<open>
  More example handlers: one claims the request; one ends the response with part of an
  answer and then throws an error whose message holds a credential; one throws the same
  error before it has written anything.
\<close>

definition claimsIt :: "request \<Rightarrow> response \<Rightarrow> handlerResult" where
  "claimsIt req res = (Inr True, orAsItWas res (sendPlainText 200 ''handled'' res))"

definition failsLeaking :: "request \<Rightarrow> response \<Rightarrow> handlerResult" where
  "failsLeaking req res =
     (Inl ''connect ECONNREFUSED db://admin:hunter2@10.0.0.5'', resEnd ''partial'' res)"

definition failsBeforeAnswering :: "request \<Rightarrow> response \<Rightarrow> handlerResult" where
  "failsBeforeAnswering req res =
     (Inl ''connect ECONNREFUSED db://admin:hunter2@10.0.0.5'', res)"

text \<open>The place of each handler in the documented order.\<close>

fun handlerRank :: "handlerName \<Rightarrow> nat" where
  "handlerRank Hooks = 0"
| "handlerRank ToolsInvoke = 1"
| "handlerRank Slack = 2"
| "handlerRank Plugin = 3"
| "handlerRank OpenResponses = 4"
| "handlerRank OpenAi = 5"
| "handlerRank A2ui = 6"
| "handlerRank CanvasHostHttp = 7"
| "handlerRank ControlUiAvatar = 8"
| "handlerRank ControlUiHttp = 9"

text \<open>
  A list of events calls handlers in the documented order when the ranks of the handlers
  called are strictly increasing: no handler before an earlier one, none twice.
\<close>

definition callsInOrder :: "event list \<Rightarrow> bool" where
  "callsInOrder evs = sorted_wrt (<) (map handlerRank (handlerCalls evs))"

text \<open>
  A stage keeps to the ranks from \<open>lo\<close> up to, not including, \<open>hi\<close> when it only adds
  events to the trace, in order, and every handler it calls has a rank in that range.
\<close>

definition keepsTo :: "stage \<Rightarrow> nat \<Rightarrow> nat \<Rightarrow> bool" where
  "keepsTo s lo hi =
     (\<forall>w. \<exists>evs. trace (snd (s w)) = trace w @ evs
               \<and> callsInOrder evs
               \<and> (\<forall>n\<in>set (handlerCalls evs). lo \<le> handlerRank n \<and> handlerRank n < hi))"

section \<open>Properties of the capability registry\<close>

text \<open>One step of the loop, in terms of the match.\<close>

lemma capability_step:
  "hasAuthorizedNodeWsClientForCanvasCapability im nowMs (c # cs) capability =
     (if sessionGrants im nowMs capability c then (True, renewed im nowMs c # cs)
      else (case hasAuthorizedNodeWsClientForCanvasCapability im nowMs cs capability of
              (r, cs') \<Rightarrow> (r, c # cs')))"
  by (auto simp: sessionGrants_def holdsCapabilityToken_def expiresAfter_def
      storedTokenEquals_def renewed_def truthyString_def truthyNumber_def Let_def
      split: option.splits)

lemma capability_no_match:
  "\<forall>c\<in>set cs. \<not> sessionGrants im nowMs capability c \<Longrightarrow>
     hasAuthorizedNodeWsClientForCanvasCapability im nowMs cs capability = (False, cs)"
proof (induction cs)
  case Nil
  then show ?case by simp
next
  case (Cons c cs)
  then show ?case by (simp only: capability_step) simp
qed

lemma capability_first_match:
  "\<forall>x\<in>set pre. \<not> sessionGrants im nowMs capability x \<Longrightarrow>
   sessionGrants im nowMs capability c \<Longrightarrow>
     hasAuthorizedNodeWsClientForCanvasCapability im nowMs (pre @ c # post) capability
       = (True, pre @ renewed im nowMs c # post)"
proof (induction pre)
  case Nil
  then show ?case by (simp only: capability_step append_Nil) simp
next
  case (Cons p pre)
  then show ?case by (simp only: capability_step append_Cons) simp
qed

text \<open>
  On a clock at or after the epoch, an expiry strictly after the current time is not
  zero: the guard on the expiry field then only says that the field is set.
\<close>

lemma expiry_after_epoch_is_set:
  "0 \<le> nowMs \<Longrightarrow> expiresAfter nowMs client
     \<Longrightarrow> truthyNumber (canvasCapabilityExpiresAtMs client)"
  by (auto simp: expiresAfter_def truthyNumber_def split: option.splits)

lemma sessionGrants_after_epoch:
  "0 \<le> nowMs \<Longrightarrow>
     sessionGrants im nowMs capability client
       = (isNodeWsClient im client \<and> truthyString (canvasCapability client)
          \<and> expiresAfter nowMs client \<and> storedTokenEquals im capability client)"
  using expiry_after_epoch_is_set[of nowMs client]
  by (auto simp: sessionGrants_def holdsCapabilityToken_def)

lemmas example_defs =
  exampleImports_def uiSession_def nodeSession_def sessionGrants_def isNodeWsClient_def
  holdsCapabilityToken_def expiresAfter_def storedTokenEquals_def truthyString_def
  truthyNumber_def

lemma notShortened_refl: "notShortened cs cs"
  by (simp add: notShortened_def list_all2_same split: option.splits)

lemma notShortened_one_changed:
  "notShortened (pre @ c # post) (pre @ c' # post) = notShortened [c] [c']"
  using notShortened_refl[of pre] notShortened_refl[of post]
  by (simp add: notShortened_def list_all2_append)

text \<open>
  Claim C1. The capability check returns true exactly when some session of the set is
  node-class, holds a capability token whose expiry is strictly after the current time,
  and stores a token equal to the presented one under the secret comparator. In that
  case the first such session, in iteration order, has its expiry set to now + TTL and
  every other session is left as it was; otherwise the result is false and the set is
  unchanged.
\<close>

theorem capability_check_characterised:
  "fst (hasAuthorizedNodeWsClientForCanvasCapability im nowMs cs capability)
     = (\<exists>c\<in>set cs. sessionGrants im nowMs capability c)
   \<and> ((\<exists>c\<in>set cs. sessionGrants im nowMs capability c) \<longrightarrow>
        (\<exists>pre c post.
           cs = pre @ c # post
           \<and> (\<forall>x\<in>set pre. \<not> sessionGrants im nowMs capability x)
           \<and> sessionGrants im nowMs capability c
           \<and> hasAuthorizedNodeWsClientForCanvasCapability im nowMs cs capability
               = (True,
                  pre @ c\<lparr>canvasCapabilityExpiresAtMs :=
                            Some (nowMs + CANVAS_CAPABILITY_TTL_MS im)\<rparr> # post)))
   \<and> (\<not> (\<exists>c\<in>set cs. sessionGrants im nowMs capability c) \<longrightarrow>
        hasAuthorizedNodeWsClientForCanvasCapability im nowMs cs capability = (False, cs))"
proof (cases "\<exists>c\<in>set cs. sessionGrants im nowMs capability c")
  case True
  then obtain pre c post where split:
    "cs = pre @ c # post" "sessionGrants im nowMs capability c"
    "\<forall>x\<in>set pre. \<not> sessionGrants im nowMs capability x"
    using split_list_first_prop[of cs "sessionGrants im nowMs capability"] by blast
  have run: "hasAuthorizedNodeWsClientForCanvasCapability im nowMs cs capability
               = (True, pre @ renewed im nowMs c # post)"
    using capability_first_match[OF split(3) split(2)] split(1) by simp
  show ?thesis
  proof (intro conjI impI)
    show "fst (hasAuthorizedNodeWsClientForCanvasCapability im nowMs cs capability)
            = (\<exists>c\<in>set cs. sessionGrants im nowMs capability c)"
      using True run by simp
  next
    show "\<exists>pre c post.
           cs = pre @ c # post
           \<and> (\<forall>x\<in>set pre. \<not> sessionGrants im nowMs capability x)
           \<and> sessionGrants im nowMs capability c
           \<and> hasAuthorizedNodeWsClientForCanvasCapability im nowMs cs capability
               = (True,
                  pre @ c\<lparr>canvasCapabilityExpiresAtMs :=
                            Some (nowMs + CANVAS_CAPABILITY_TTL_MS im)\<rparr> # post)"
      using split run unfolding renewed_def by blast
  next
    assume "\<not> (\<exists>c\<in>set cs. sessionGrants im nowMs capability c)"
    with True show "hasAuthorizedNodeWsClientForCanvasCapability im nowMs cs capability = (False, cs)"
      by contradiction
  qed
next
  case False
  then have "hasAuthorizedNodeWsClientForCanvasCapability im nowMs cs capability = (False, cs)"
    using capability_no_match[of cs im nowMs capability] by blast
  with False show ?thesis by simp
qed

text \<open>
  The example of the specification: with TTL 5000 and the token \<open>T\<close> held until 5000, a
  check at 4000 succeeds and moves the expiry to 9000; a check at 6001 fails and renews
  nothing.
\<close>

theorem capability_check_characterised_witness:
  "(\<exists>c\<in>set [uiSession, nodeSession]. sessionGrants exampleImports 4000 ''T'' c)
   \<and> hasAuthorizedNodeWsClientForCanvasCapability exampleImports 4000
        [uiSession, nodeSession] ''T''
       = (True, [uiSession, nodeSession\<lparr>canvasCapabilityExpiresAtMs := Some 9000\<rparr>])
   \<and> \<not> (\<exists>c\<in>set [uiSession, nodeSession]. sessionGrants exampleImports 6001 ''T'' c)
   \<and> hasAuthorizedNodeWsClientForCanvasCapability exampleImports 6001
        [uiSession, nodeSession] ''T''
       = (False, [uiSession, nodeSession])"
proof -
  have grants: "\<exists>c\<in>set [uiSession, nodeSession]. sessionGrants exampleImports 4000 ''T'' c"
    by (simp add: example_defs)
  have expired: "\<not> (\<exists>c\<in>set [uiSession, nodeSession]. sessionGrants exampleImports 6001 ''T'' c)"
    by (simp add: example_defs)
  from capability_check_characterised[of exampleImports 4000 "[uiSession, nodeSession]" "''T''"] grants
  obtain pre c post where m:
    "[uiSession, nodeSession] = pre @ c # post"
    "\<forall>x\<in>set pre. \<not> sessionGrants exampleImports 4000 ''T'' x"
    "sessionGrants exampleImports 4000 ''T'' c"
    "hasAuthorizedNodeWsClientForCanvasCapability exampleImports 4000 [uiSession, nodeSession] ''T''
       = (True, pre @ c\<lparr>canvasCapabilityExpiresAtMs :=
                          Some (4000 + CANVAS_CAPABILITY_TTL_MS exampleImports)\<rparr> # post)"
    by blast
  have notUi: "\<not> sessionGrants exampleImports 4000 ''T'' uiSession"
    by (simp add: example_defs)
  from m(1) m(3) notUi have "pre = [uiSession] \<and> c = nodeSession \<and> post = []"
    by (cases pre; cases "tl pre"; auto)
  with m(4) have hit:
    "hasAuthorizedNodeWsClientForCanvasCapability exampleImports 4000 [uiSession, nodeSession] ''T''
       = (True, [uiSession, nodeSession\<lparr>canvasCapabilityExpiresAtMs := Some 9000\<rparr>])"
    by (simp add: exampleImports_def)
  from capability_check_characterised[of exampleImports 6001 "[uiSession, nodeSession]" "''T''"] expired
  have miss:
    "hasAuthorizedNodeWsClientForCanvasCapability exampleImports 6001 [uiSession, nodeSession] ''T''
       = (False, [uiSession, nodeSession])"
    by blast
  from grants hit expired miss show ?thesis by blast
qed

text \<open>
  Claim C2. When no session of the set holds the token T, the capability check returns
  false and changes nothing, at any time: the session set is the only ground truth. This
  is so when no stored token equals T under the comparator, and so, for a comparator
  that accepts identical strings only (its contract), when no session stores T.
\<close>

theorem no_holder_no_access:
  "((\<forall>c\<in>set cs. \<not> storedTokenEquals im capability c) \<longrightarrow>
      hasAuthorizedNodeWsClientForCanvasCapability im nowMs cs capability = (False, cs))
   \<and> ((\<forall>a b. safeEqualSecret im a b \<longrightarrow> a = b)
        \<and> (\<forall>c\<in>set cs. canvasCapability c \<noteq> Some capability) \<longrightarrow>
      hasAuthorizedNodeWsClientForCanvasCapability im nowMs cs capability = (False, cs))"
proof (intro conjI impI)
  assume "\<forall>c\<in>set cs. \<not> storedTokenEquals im capability c"
  then have "\<forall>c\<in>set cs. \<not> sessionGrants im nowMs capability c"
    by (simp add: sessionGrants_def)
  then show "hasAuthorizedNodeWsClientForCanvasCapability im nowMs cs capability = (False, cs)"
    by (rule capability_no_match)
next
  assume h: "(\<forall>a b. safeEqualSecret im a b \<longrightarrow> a = b)
        \<and> (\<forall>c\<in>set cs. canvasCapability c \<noteq> Some capability)"
  have "\<forall>c\<in>set cs. \<not> sessionGrants im nowMs capability c"
  proof
    fix c assume "c \<in> set cs"
    with h have "canvasCapability c \<noteq> Some capability" by blast
    with h show "\<not> sessionGrants im nowMs capability c"
      by (auto simp: sessionGrants_def storedTokenEquals_def split: option.splits)
  qed
  then show "hasAuthorizedNodeWsClientForCanvasCapability im nowMs cs capability = (False, cs)"
    by (rule capability_no_match)
qed

text \<open>
  Within the TTL window the token is accepted while the node session is in the set, and
  denied once that session has been removed.
\<close>

theorem no_holder_no_access_witness:
  "hasAuthorizedNodeWsClientForCanvasCapability exampleImports 4000
      [uiSession, nodeSession] ''T''
     = (True, [uiSession, nodeSession\<lparr>canvasCapabilityExpiresAtMs := Some 9000\<rparr>])
   \<and> hasAuthorizedNodeWsClientForCanvasCapability exampleImports 4000
        (remove1 nodeSession [uiSession, nodeSession]) ''T''
       = (False, [uiSession])"
proof -
  have before:
    "hasAuthorizedNodeWsClientForCanvasCapability exampleImports 4000
        [uiSession, nodeSession] ''T''
       = (True, [uiSession, nodeSession\<lparr>canvasCapabilityExpiresAtMs := Some 9000\<rparr>])"
    by (simp add: capability_step example_defs renewed_def)
  have left: "remove1 nodeSession [uiSession, nodeSession] = [uiSession]"
    by (simp add: uiSession_def nodeSession_def)
  have sound: "\<forall>a b. safeEqualSecret exampleImports a b \<longrightarrow> a = b"
    by (simp add: exampleImports_def)
  have absent: "\<forall>c\<in>set [uiSession]. canvasCapability c \<noteq> Some ''T''"
    by (simp add: uiSession_def)
  from no_holder_no_access[of "[uiSession]" exampleImports "''T''" 4000] sound absent
  have "hasAuthorizedNodeWsClientForCanvasCapability exampleImports 4000 [uiSession] ''T''
          = (False, [uiSession])" by blast
  with before left show ?thesis by simp
qed

text \<open>
  Claim C6, as stated, fails: a matched session whose stored expiry lies more than one
  TTL ahead of the current time has its expiry moved back to now + TTL.
\<close>

theorem renewal_can_shorten_counterexample:
  "fst (hasAuthorizedNodeWsClientForCanvasCapability exampleImports 4000
          [longLivedSession] ''T'')
   \<and> expiries [longLivedSession] = [Some 20000]
   \<and> expiries (snd (hasAuthorizedNodeWsClientForCanvasCapability exampleImports 4000
                      [longLivedSession] ''T'')) = [Some 9000]
   \<and> \<not> notShortened [longLivedSession]
          (snd (hasAuthorizedNodeWsClientForCanvasCapability exampleImports 4000
                  [longLivedSession] ''T''))"
  by (simp add: capability_step example_defs renewed_def longLivedSession_def expiries_def
      notShortened_def)

text \<open>
  Claim C6, amended. A successful match sets the expiry of the matched session, the first
  one the presented token matches, to now + TTL and leaves every other session as it
  was. When the stored expiry of the matched session was at most now + TTL (as any
  expiry set by an earlier grant or renewal with this TTL is, on a clock that does not
  run backwards), no session has an earlier expiry after the match than before it; when
  it was later than now + TTL, it is moved back to now + TTL.
\<close>

theorem renewal_extends_within_ttl:
  assumes matched:
    "hasAuthorizedNodeWsClientForCanvasCapability im nowMs cs capability = (True, cs')"
  shows "\<exists>pre c post prior.
           cs = pre @ c # post
           \<and> (\<forall>x\<in>set pre. \<not> sessionGrants im nowMs capability x)
           \<and> sessionGrants im nowMs capability c
           \<and> canvasCapabilityExpiresAtMs c = Some prior
           \<and> cs' = pre @ c\<lparr>canvasCapabilityExpiresAtMs :=
                              Some (nowMs + CANVAS_CAPABILITY_TTL_MS im)\<rparr> # post
           \<and> (prior \<le> nowMs + CANVAS_CAPABILITY_TTL_MS im \<longrightarrow> notShortened cs cs')
           \<and> (nowMs + CANVAS_CAPABILITY_TTL_MS im < prior \<longrightarrow> \<not> notShortened cs cs')"
proof -
  have "\<exists>c\<in>set cs. sessionGrants im nowMs capability c"
  proof (rule ccontr)
    assume "\<not> (\<exists>c\<in>set cs. sessionGrants im nowMs capability c)"
    then have "hasAuthorizedNodeWsClientForCanvasCapability im nowMs cs capability = (False, cs)"
      using capability_no_match[of cs im nowMs capability] by blast
    with matched show False by simp
  qed
  then obtain pre c post where split:
    "cs = pre @ c # post" "sessionGrants im nowMs capability c"
    "\<forall>x\<in>set pre. \<not> sessionGrants im nowMs capability x"
    using split_list_first_prop[of cs "sessionGrants im nowMs capability"] by blast
  have run: "cs' = pre @ renewed im nowMs c # post"
    using capability_first_match[OF split(3) split(2), of post] split(1) matched by simp
  from split(2) obtain prior where prior: "canvasCapabilityExpiresAtMs c = Some prior"
    by (auto simp: sessionGrants_def expiresAfter_def split: option.splits)
  have one: "notShortened [c] [renewed im nowMs c]
               = (prior \<le> nowMs + CANVAS_CAPABILITY_TTL_MS im)"
    using prior by (simp add: notShortened_def renewed_def)
  have all: "notShortened cs cs' = (prior \<le> nowMs + CANVAS_CAPABILITY_TTL_MS im)"
    unfolding split(1) run notShortened_one_changed by (rule one)
  from split prior run all show ?thesis
    unfolding renewed_def by (intro exI[of _ pre] exI[of _ c] exI[of _ post] exI[of _ prior]) auto
qed

text \<open>
  The node matched first holds its token until 5000 and is renewed to 9000, whatever the
  expiry of a later session that holds the same token.
\<close>

theorem renewal_extends_within_ttl_witness:
  "hasAuthorizedNodeWsClientForCanvasCapability exampleImports 4000
      [nodeSession, longLivedSession] ''T''
     = (True, [nodeSession\<lparr>canvasCapabilityExpiresAtMs := Some 9000\<rparr>, longLivedSession])
   \<and> notShortened [nodeSession, longLivedSession]
        [nodeSession\<lparr>canvasCapabilityExpiresAtMs := Some 9000\<rparr>, longLivedSession]"
proof -
  let ?cs = "[nodeSession, longLivedSession]"
  let ?cs' = "[nodeSession\<lparr>canvasCapabilityExpiresAtMs := Some 9000\<rparr>, longLivedSession]"
  have run: "hasAuthorizedNodeWsClientForCanvasCapability exampleImports 4000 ?cs ''T''
               = (True, ?cs')"
    by (simp add: capability_step example_defs renewed_def)
  have first: "sessionGrants exampleImports 4000 ''T'' nodeSession"
    by (simp add: example_defs)
  from renewal_extends_within_ttl[OF run] obtain pre c post prior where m:
    "?cs = pre @ c # post"
    "\<forall>x\<in>set pre. \<not> sessionGrants exampleImports 4000 ''T'' x"
    "canvasCapabilityExpiresAtMs c = Some prior"
    "prior \<le> 4000 + CANVAS_CAPABILITY_TTL_MS exampleImports \<longrightarrow> notShortened ?cs ?cs'"
    by blast
  from m(1) m(2) first have "pre = []" by (cases pre) auto
  with m(1) have "c = nodeSession" by simp
  with m(3) have "prior = 5000" by (simp add: nodeSession_def)
  with m(4) have "notShortened ?cs ?cs'" by (simp add: exampleImports_def)
  with run show ?thesis by simp
qed

section \<open>Properties of the auth resolver\<close>

text \<open>The capability step of the resolver: its verdict and what it adds to the trace.\<close>

lemma capability_step_valid:
  "capabilityValid im nowMs p w \<Longrightarrow>
     fst (authorizeCanvasRequest_capability im nowMs p lastAuthFailure w) = Inr authOk"
  by (auto simp: capabilityValid_def authorizeCanvasRequest_capability_def Let_def
      split: option.splits prod.splits)

lemma capability_step_invalid:
  "\<not> capabilityValid im nowMs p w \<Longrightarrow>
     fst (authorizeCanvasRequest_capability im nowMs p lastAuthFailure w)
       = Inr (case lastAuthFailure of None \<Rightarrow> authUnauthorized | Some f \<Rightarrow> f)"
  by (auto simp: capabilityValid_def authorizeCanvasRequest_capability_def Let_def
      split: option.splits prod.splits)

lemma capability_step_trace:
  "trace (snd (authorizeCanvasRequest_capability im nowMs p lastAuthFailure w))
     = trace w @ (case pCanvasCapability p of
                    None \<Rightarrow> []
                  | Some capability \<Rightarrow> if capability = [] then [] else [CapabilityCheck capability])"
  by (auto simp: authorizeCanvasRequest_capability_def Let_def logEvent_def
      split: option.splits prod.splits)

lemma capabilityValid_logEvent [simp]:
  "capabilityValid im nowMs p (logEvent ev w) = capabilityValid im nowMs p w"
  by (simp add: capabilityValid_def logEvent_def split: option.splits)

lemma capability_step_result:
  "fst (authorizeCanvasRequest_capability im nowMs p lastAuthFailure w)
     = Inr (if capabilityValid im nowMs p w then authOk
            else (case lastAuthFailure of None \<Rightarrow> authUnauthorized | Some f \<Rightarrow> f))"
  using capability_step_valid[of im nowMs p w lastAuthFailure]
        capability_step_invalid[of im nowMs p w lastAuthFailure]
  by simp

lemma resolver_gateway_calls:
  "gatewayConnectCalls (newEvents w (snd (authorizeCanvasRequest im nowMs p w)))
     = (case getBearerToken im (pReq p) of
          None \<Rightarrow> []
        | Some token \<Rightarrow>
            if token \<noteq> [] \<and> \<not> pMalformedScopedPath p
               \<and> \<not> isLocalDirectRequest im (pReq p) (pTrustedProxies p)
            then [bearerCheckParams p token] else [])"
  by (auto simp: authorizeCanvasRequest_def Let_def newEvents_def logEvent_def
      capability_step_trace bearerCheckParams_def split: option.splits sum.splits)

lemmas resolver_example_defs =
  exampleParams_def remoteRequest_def exampleImports_def exampleGetBearerToken_def
  exampleAuthorizeGatewayConnect_def bearerCheckParams_def exampleAuth_def
  exampleRateLimited_def authOk_def authUnauthorized_def exampleWorld_def

text \<open>
  Claim C4. For a request that is not malformed and that the local-direct rule accepts,
  the resolver returns the authorized verdict at once: the only call it has made is the
  one to \<open>isLocalDirectRequest\<close> (no bearer credential extracted, no gateway check and
  so no rate limiter, no capability check), and the session set is unchanged.
\<close>

theorem local_direct_authorized_immediately:
  assumes "\<not> pMalformedScopedPath p"
    and "isLocalDirectRequest im (pReq p) (pTrustedProxies p)"
  shows "authorizeCanvasRequest im nowMs p w
           = (Inr authOk, w\<lparr>trace := trace w @ [CallIsLocalDirectRequest (pReq p) (pTrustedProxies p)]\<rparr>)"
  using assms by (simp add: authorizeCanvasRequest_def logEvent_def)

theorem local_direct_authorized_immediately_witness:
  "authorizeCanvasRequest exampleImports 4000
     ((exampleParams [] (Some ''T''))\<lparr>pReq := localRequest\<rparr>) (exampleWorld freshResponse)
     = (Inr authOk,
        \<lparr>io = freshResponse, clients = [uiSession, nodeSession],
         trace = [CallIsLocalDirectRequest localRequest []]\<rparr>)"
proof -
  let ?p = "(exampleParams [] (Some ''T''))\<lparr>pReq := localRequest\<rparr>"
  have wf: "\<not> pMalformedScopedPath ?p" by (simp add: exampleParams_def)
  have local: "isLocalDirectRequest exampleImports (pReq ?p) (pTrustedProxies ?p)"
    by (simp add: exampleParams_def exampleImports_def localRequest_def)
  from local_direct_authorized_immediately[OF wf local, of 4000 "exampleWorld freshResponse"]
  show ?thesis by (simp add: exampleParams_def exampleWorld_def)
qed

text \<open>
  Claim C5. For a request that is neither malformed nor local-direct: a bearer
  credential, when present, is checked first, passed as both token and password, and a
  successful verdict is returned at once, before the session set is read; when the
  bearer check denies, a valid capability still authorizes, and otherwise the verdict is
  the denial of the bearer check; without a bearer credential the gateway check is not
  called, a valid capability authorizes, and otherwise the verdict is the bare
  unauthorized one.
\<close>

theorem resolver_order_and_denial_preference:
  assumes wellFormed: "\<not> pMalformedScopedPath p"
    and remote: "\<not> isLocalDirectRequest im (pReq p) (pTrustedProxies p)"
  shows
    "(\<forall>token verdict.
        getBearerToken im (pReq p) = Some token \<and> token \<noteq> []
        \<and> authorizeGatewayConnect im (bearerCheckParams p token) = Inr verdict \<and> ok verdict
        \<longrightarrow> authorizeCanvasRequest im nowMs p w
              = (Inr verdict,
                 w\<lparr>trace := trace w @
                      [CallIsLocalDirectRequest (pReq p) (pTrustedProxies p),
                       CallGetBearerToken (pReq p),
                       CallAuthorizeGatewayConnect (bearerCheckParams p token)]\<rparr>))
     \<and> (\<forall>token verdict.
          getBearerToken im (pReq p) = Some token \<and> token \<noteq> []
          \<and> authorizeGatewayConnect im (bearerCheckParams p token) = Inr verdict \<and> \<not> ok verdict
          \<longrightarrow> fst (authorizeCanvasRequest im nowMs p w)
                = Inr (if capabilityValid im nowMs p w then authOk else verdict)
              \<and> take 3 (newEvents w (snd (authorizeCanvasRequest im nowMs p w)))
                  = [CallIsLocalDirectRequest (pReq p) (pTrustedProxies p),
                     CallGetBearerToken (pReq p),
                     CallAuthorizeGatewayConnect (bearerCheckParams p token)])
     \<and> (\<not> truthyString (getBearerToken im (pReq p))
          \<longrightarrow> fst (authorizeCanvasRequest im nowMs p w)
                = Inr (if capabilityValid im nowMs p w then authOk else authUnauthorized)
              \<and> gatewayConnectCalls (newEvents w (snd (authorizeCanvasRequest im nowMs p w))) = [])"
proof (intro conjI allI impI)
  fix token verdict
  assume "getBearerToken im (pReq p) = Some token \<and> token \<noteq> []
        \<and> authorizeGatewayConnect im (bearerCheckParams p token) = Inr verdict \<and> ok verdict"
  then show "authorizeCanvasRequest im nowMs p w
              = (Inr verdict,
                 w\<lparr>trace := trace w @
                      [CallIsLocalDirectRequest (pReq p) (pTrustedProxies p),
                       CallGetBearerToken (pReq p),
                       CallAuthorizeGatewayConnect (bearerCheckParams p token)]\<rparr>)"
    using wellFormed remote
    by (simp add: authorizeCanvasRequest_def bearerCheckParams_def logEvent_def Let_def)
next
  fix token verdict
  assume denied: "getBearerToken im (pReq p) = Some token \<and> token \<noteq> []
        \<and> authorizeGatewayConnect im (bearerCheckParams p token) = Inr verdict \<and> \<not> ok verdict"
  let ?w3 = "logEvent (CallAuthorizeGatewayConnect (bearerCheckParams p token))
               (logEvent (CallGetBearerToken (pReq p))
                  (logEvent (CallIsLocalDirectRequest (pReq p) (pTrustedProxies p)) w))"
  have run: "authorizeCanvasRequest im nowMs p w
               = authorizeCanvasRequest_capability im nowMs p (Some verdict) ?w3"
    using wellFormed remote denied
    by (simp add: authorizeCanvasRequest_def bearerCheckParams_def Let_def)
  show "fst (authorizeCanvasRequest im nowMs p w)
          = Inr (if capabilityValid im nowMs p w then authOk else verdict)"
    unfolding run by (simp add: capability_step_result)
  show "take 3 (newEvents w (snd (authorizeCanvasRequest im nowMs p w)))
          = [CallIsLocalDirectRequest (pReq p) (pTrustedProxies p),
             CallGetBearerToken (pReq p),
             CallAuthorizeGatewayConnect (bearerCheckParams p token)]"
    unfolding run by (simp add: capability_step_trace newEvents_def logEvent_def)
next
  assume absent: "\<not> truthyString (getBearerToken im (pReq p))"
  let ?w2 = "logEvent (CallGetBearerToken (pReq p))
               (logEvent (CallIsLocalDirectRequest (pReq p) (pTrustedProxies p)) w)"
  have run: "authorizeCanvasRequest im nowMs p w
               = authorizeCanvasRequest_capability im nowMs p None ?w2"
    using wellFormed remote absent
    by (simp add: authorizeCanvasRequest_def truthyString_def Let_def split: option.splits)
  show "fst (authorizeCanvasRequest im nowMs p w)
          = Inr (if capabilityValid im nowMs p w then authOk else authUnauthorized)"
    unfolding run by (simp add: capability_step_result)
  show "gatewayConnectCalls (newEvents w (snd (authorizeCanvasRequest im nowMs p w))) = []"
    unfolding run
    by (simp add: capability_step_trace newEvents_def logEvent_def split: option.splits)
qed

text \<open>
  A rate-limited bearer denial is returned when the capability is stale, and is overridden
  by a valid capability; a good bearer token needs no capability; nothing presented is
  plain unauthorized.
\<close>

theorem resolver_order_and_denial_preference_witness:
  "fst (authorizeCanvasRequest exampleImports 4000
          (exampleParams [(''authorization'', ''Bearer throttled'')] (Some ''stale''))
          (exampleWorld freshResponse))
     = Inr exampleRateLimited
   \<and> fst (authorizeCanvasRequest exampleImports 4000
          (exampleParams [(''authorization'', ''Bearer throttled'')] (Some ''T''))
          (exampleWorld freshResponse))
     = Inr authOk
   \<and> fst (authorizeCanvasRequest exampleImports 4000
          (exampleParams [(''authorization'', ''Bearer test-token'')] (Some ''stale''))
          (exampleWorld freshResponse))
     = Inr authOk
   \<and> fst (authorizeCanvasRequest exampleImports 4000
          (exampleParams [] (Some ''stale'')) (exampleWorld freshResponse))
     = Inr authUnauthorized"
proof -
  let ?throttled = "[(''authorization'', ''Bearer throttled'')]"
  let ?good = "[(''authorization'', ''Bearer test-token'')]"
  have wf: "\<And>h c. \<not> pMalformedScopedPath (exampleParams h c)"
    by (simp add: exampleParams_def)
  have remote: "\<And>h c. \<not> isLocalDirectRequest exampleImports (pReq (exampleParams h c))
                          (pTrustedProxies (exampleParams h c))"
    by (simp add: exampleParams_def exampleImports_def remoteRequest_def)
  have stale: "\<And>h. \<not> capabilityValid exampleImports 4000 (exampleParams h (Some ''stale''))
                        (exampleWorld freshResponse)"
    by (simp add: capabilityValid_def exampleParams_def exampleWorld_def capability_step
        example_defs)
  have live: "\<And>h. capabilityValid exampleImports 4000 (exampleParams h (Some ''T''))
                        (exampleWorld freshResponse)"
    by (simp add: capabilityValid_def exampleParams_def exampleWorld_def capability_step
        example_defs)
  have bearerT: "\<And>c. getBearerToken exampleImports (pReq (exampleParams ?throttled c))
                   = Some ''throttled''"
    by (simp add: resolver_example_defs)
  have bearerG: "\<And>c. getBearerToken exampleImports (pReq (exampleParams ?good c))
                   = Some ''test-token''"
    by (simp add: resolver_example_defs)
  have bearerN: "\<And>c. \<not> truthyString (getBearerToken exampleImports (pReq (exampleParams [] c)))"
    by (simp add: resolver_example_defs truthyString_def)
  have checkT: "\<And>c. authorizeGatewayConnect exampleImports
                        (bearerCheckParams (exampleParams ?throttled c) ''throttled'')
                   = Inr exampleRateLimited"
    by (simp add: resolver_example_defs)
  have checkG: "\<And>c. authorizeGatewayConnect exampleImports
                        (bearerCheckParams (exampleParams ?good c) ''test-token'')
                   = Inr authOk"
    by (simp add: resolver_example_defs)
  have limited: "\<not> ok exampleRateLimited" and fine: "ok authOk"
    by (simp_all add: exampleRateLimited_def authOk_def)
  note thm1 = resolver_order_and_denial_preference[OF wf remote,
      of ?throttled "Some ''stale''" 4000 "exampleWorld freshResponse"]
  note thm2 = resolver_order_and_denial_preference[OF wf remote,
      of ?throttled "Some ''T''" 4000 "exampleWorld freshResponse"]
  note thm3 = resolver_order_and_denial_preference[OF wf remote,
      of ?good "Some ''stale''" 4000 "exampleWorld freshResponse"]
  note thm4 = resolver_order_and_denial_preference[OF wf remote,
      of "[]" "Some ''stale''" 4000 "exampleWorld freshResponse"]
  have r1: "fst (authorizeCanvasRequest exampleImports 4000
          (exampleParams ?throttled (Some ''stale'')) (exampleWorld freshResponse))
     = Inr exampleRateLimited"
    using thm1 bearerT checkT limited stale by simp
  have r2: "fst (authorizeCanvasRequest exampleImports 4000
          (exampleParams ?throttled (Some ''T'')) (exampleWorld freshResponse))
     = Inr authOk"
    using thm2 bearerT checkT limited live by simp
  have r3: "fst (authorizeCanvasRequest exampleImports 4000
          (exampleParams ?good (Some ''stale'')) (exampleWorld freshResponse))
     = Inr authOk"
    using thm3 bearerG checkG fine by simp
  have r4: "fst (authorizeCanvasRequest exampleImports 4000
          (exampleParams [] (Some ''stale'')) (exampleWorld freshResponse))
     = Inr authUnauthorized"
    using thm4 bearerN stale by simp
  from r1 r2 r3 r4 show ?thesis by simp
qed

text \<open>
  Claim C10. Every gateway check the resolver makes carries the configured trust settings
  with \<open>allowTailscale\<close> set to false, and the resolver behaves the same whatever the
  configured value of \<open>allowTailscale\<close> is.
\<close>

theorem bearer_check_has_tailscale_off:
  "(\<forall>params \<in> set (gatewayConnectCalls
                      (newEvents w (snd (authorizeCanvasRequest im nowMs p w)))).
       \<not> allowTailscale (cpAuth params)
       \<and> cpAuth params = (pAuth p)\<lparr>allowTailscale := False\<rparr>)
   \<and> authorizeCanvasRequest im nowMs (p\<lparr>pAuth := (pAuth p)\<lparr>allowTailscale := b\<rparr>\<rparr>) w
       = authorizeCanvasRequest im nowMs (p\<lparr>pAuth := (pAuth p)\<lparr>allowTailscale := False\<rparr>\<rparr>) w"
proof (intro conjI ballI)
  fix params
  assume "params \<in> set (gatewayConnectCalls
                          (newEvents w (snd (authorizeCanvasRequest im nowMs p w))))"
  then obtain token where "params = bearerCheckParams p token"
    unfolding resolver_gateway_calls by (auto split: option.splits if_splits)
  then show "\<not> allowTailscale (cpAuth params)"
    and "cpAuth params = (pAuth p)\<lparr>allowTailscale := False\<rparr>"
    by (simp_all add: bearerCheckParams_def)
next
  show "authorizeCanvasRequest im nowMs (p\<lparr>pAuth := (pAuth p)\<lparr>allowTailscale := b\<rparr>\<rparr>) w
       = authorizeCanvasRequest im nowMs (p\<lparr>pAuth := (pAuth p)\<lparr>allowTailscale := False\<rparr>\<rparr>) w"
    by (simp add: authorizeCanvasRequest_def authorizeCanvasRequest_capability_def Let_def
        split: option.splits sum.splits prod.splits)
qed

theorem bearer_check_has_tailscale_off_witness:
  "allowTailscale (pAuth (exampleParams [(''authorization'', ''Bearer wrong'')] None))
   \<and> gatewayConnectCalls
        (newEvents (exampleWorld freshResponse)
           (snd (authorizeCanvasRequest exampleImports 4000
                   (exampleParams [(''authorization'', ''Bearer wrong'')] None)
                   (exampleWorld freshResponse))))
       = [\<lparr>cpAuth = exampleAuth\<lparr>allowTailscale := False\<rparr>,
           cpConnectAuth = Some \<lparr>connectToken = Some ''wrong'', connectPassword = Some ''wrong''\<rparr>,
           cpReq = remoteRequest ''/canvas/index.html'' [(''authorization'', ''Bearer wrong'')],
           cpTrustedProxies = [],
           cpRateLimiter = None\<rparr>]
   \<and> list_all (\<lambda>params. \<not> allowTailscale (cpAuth params))
        (gatewayConnectCalls
           (newEvents (exampleWorld freshResponse)
              (snd (authorizeCanvasRequest exampleImports 4000
                      (exampleParams [(''authorization'', ''Bearer wrong'')] None)
                      (exampleWorld freshResponse)))))"
proof -
  let ?p = "exampleParams [(''authorization'', ''Bearer wrong'')] None"
  let ?calls = "gatewayConnectCalls
        (newEvents (exampleWorld freshResponse)
           (snd (authorizeCanvasRequest exampleImports 4000 ?p (exampleWorld freshResponse))))"
  have configured: "allowTailscale (pAuth ?p)"
    by (simp add: exampleParams_def exampleAuth_def)
  have calls: "?calls
       = [\<lparr>cpAuth = exampleAuth\<lparr>allowTailscale := False\<rparr>,
           cpConnectAuth = Some \<lparr>connectToken = Some ''wrong'', connectPassword = Some ''wrong''\<rparr>,
           cpReq = remoteRequest ''/canvas/index.html'' [(''authorization'', ''Bearer wrong'')],
           cpTrustedProxies = [],
           cpRateLimiter = None\<rparr>]"
    unfolding resolver_gateway_calls
    by (simp add: exampleParams_def remoteRequest_def exampleImports_def
        exampleGetBearerToken_def bearerCheckParams_def)
  from bearer_check_has_tailscale_off[of "exampleWorld freshResponse" exampleImports 4000 ?p True]
  have "\<forall>params\<in>set ?calls. \<not> allowTailscale (cpAuth params)" by blast
  then have "list_all (\<lambda>params. \<not> allowTailscale (cpAuth params)) ?calls"
    by (simp add: list_all_iff)
  with configured calls show ?thesis by blast
qed

section \<open>Properties of the HTTP and upgrade paths\<close>

text \<open>Running the model on the example deployment.\<close>

lemmas model_defs =
  handleRequest_def handleRequest_try_def handleRequest_route_def handleRequest_plugin_def
  handleRequest_openResponses_def handleRequest_openAi_def handleRequest_canvas_def
  handleRequest_controlUi_def handleRequest_notFound_def unlessHandled_def callHandler_def
  respond_def writeResponse_def logEvent_def sendPlainText_def sendJson_def
  sendMethodNotAllowed_def assignStatusCode_def setHeader_def resEnd_def
  handleRequest_catch_def
  urlOrRoot_def isWebSocketUpgradeRequest_def toLowerCase_def isGatewayHealthPath_def
  isCanvasPath_def truthyString_def truthyNumber_def Let_def
  authorizeCanvasRequest_def authorizeCanvasRequest_capability_def
  onUpgrade_def onUpgrade_body_def onUpgrade_canvasHost_def onUpgrade_wss_def onSocket_def
  socketDestroy_def socketWrite_def

lemmas fixture_defs =
  exampleImports_def exampleOpts_def exampleUpgradeOpts_def exampleCanvasHost_def
  exampleAuth_def exampleWorld_def freshResponse_def freshSocket_def remoteRequest_def
  declines_def claimsIt_def failsLeaking_def failsBeforeAnswering_def orAsItWas_def
  exampleNormalizeCanvasScopedUrl_def
  exampleGetBearerToken_def exampleAuthorizeGatewayConnect_def
  exampleSendGatewayAuthFailure_def uiSession_def nodeSession_def authOk_def
  authUnauthorized_def exampleRateLimited_def

lemma example_plain_request:
  "\<not> isWebSocketUpgradeRequest (remoteRequest url [])"
  by (simp add: isWebSocketUpgradeRequest_def remoteRequest_def toLowerCase_def)

lemmas router_defs =
  requestRouter_def routerStages_def orNotFound_def healthCheckStage_def hooksStage_def
  toolsInvokeStage_def slackStage_def pluginStage_def openResponsesStage_def
  openAiStage_def canvasHostStage_def canvasAuthGate_def controlUiStage_def
  gatewayReauthorization_def handlerAuthOptions_def passOn_def requestLocals_def
  rewrittenRequest_def

lemmas upgrade_failure_defs =
  writeUpgradeAuthFailure_def retryAfterSecondsOf_def ceilDiv1000_def socketWrite_def
  CRLF_def rateLimitedJson_def numberToString_def digitsOfNat.simps digitChar_def
  exampleRateLimited_def authUnauthorized_def freshSocket_def

text \<open>The stages of the router, composed; each part of \<open>handleRequest\<close> in those terms.\<close>

lemma firstToFinish_passOn [simp]:
  "firstToFinish (passOn # ss) w = firstToFinish ss w"
  by (simp add: passOn_def)

lemma firstToFinish_append:
  "firstToFinish (as @ bs) w =
     (case firstToFinish as w of
        (Inl e, w') \<Rightarrow> (Inl e, w')
      | (Inr done, w') \<Rightarrow> if done then (Inr True, w') else firstToFinish bs w')"
  by (induction as arbitrary: w) (auto split: prod.splits sum.splits)

lemma firstToFinish_nested:
  "firstToFinish (firstToFinish as # bs) w = firstToFinish (as @ bs) w"
  by (simp add: firstToFinish_append split: prod.splits sum.splits)

lemma unlessHandled_stage:
  "unlessHandled s (\<lambda>w. orNotFound (firstToFinish ss w))
     = (\<lambda>w. orNotFound (firstToFinish (s # ss) w))"
  by (rule ext) (simp add: unlessHandled_def orNotFound_def split: prod.splits sum.splits)

lemma notFound_spec: "handleRequest_notFound w = orNotFound (firstToFinish [] w)"
  by (simp add: handleRequest_notFound_def orNotFound_def)

lemma controlUi_spec:
  "handleRequest_controlUi im opts L w = orNotFound (firstToFinish [controlUiStage im opts L] w)"
proof -
  have nf: "handleRequest_notFound = (\<lambda>w. orNotFound (firstToFinish [] w))"
    by (rule ext) (rule notFound_spec)
  show ?thesis
    unfolding handleRequest_controlUi_def nf controlUiStage_def
    by (simp add: unlessHandled_stage firstToFinish_nested del: firstToFinish.simps)
qed

lemma controlUi_spec_fun:
  "handleRequest_controlUi im opts L
     = (\<lambda>w. orNotFound (firstToFinish [controlUiStage im opts L] w))"
  by (rule ext) (rule controlUi_spec)

lemma canvas_spec:
  "handleRequest_canvas im opts nowMs L
     = (\<lambda>w. orNotFound
              (firstToFinish [canvasHostStage im opts nowMs L, controlUiStage im opts L] w))"
proof (rule ext)
  fix w
  show "handleRequest_canvas im opts nowMs L w
          = orNotFound
              (firstToFinish [canvasHostStage im opts nowMs L, controlUiStage im opts L] w)"
  proof (cases "canvasHost opts")
    case None
    then show ?thesis
      by (simp add: handleRequest_canvas_def controlUi_spec_fun canvasHostStage_def
          del: firstToFinish.simps)
  next
    case (Some host)
    let ?rest = "[callHandler A2ui (handleA2uiHttpRequest im (lReq L)),
                  callHandler CanvasHostHttp (handleHttpRequest host (lReq L)),
                  controlUiStage im opts L]"
    have gate: "\<And>k. (case authorizeCanvasRequest im nowMs
                          \<lparr>pReq = lReq L, pAuth = resolvedAuth opts,
                           pTrustedProxies = lTrustedProxies L,
                           pCanvasCapability = scopedCapability (lScopedCanvas L),
                           pMalformedScopedPath = malformedScopedPath (lScopedCanvas L),
                           pRateLimiter = rateLimiter opts\<rparr> w of
                     (Inl e, w') \<Rightarrow> (Inl e, w')
                   | (Inr verdict, w') \<Rightarrow>
                       if \<not> ok verdict
                       then (Inr (), respond (\<lambda>res. sendGatewayAuthFailure im res verdict) w')
                       else orNotFound (firstToFinish ?rest w'))
                 = orNotFound (firstToFinish (canvasAuthGate im opts nowMs L # ?rest) w)"
      by (simp add: canvasAuthGate_def orNotFound_def split: prod.splits sum.splits)
    from Some show ?thesis
      unfolding handleRequest_canvas_def canvasHostStage_def controlUi_spec_fun
      by (simp add: unlessHandled_stage firstToFinish_nested gate Let_def
          del: firstToFinish.simps)
  qed
qed

lemma openAi_spec:
  "handleRequest_openAi im opts nowMs L
     = (\<lambda>w. orNotFound
              (firstToFinish
                 [openAiStage im opts L, canvasHostStage im opts nowMs L,
                  controlUiStage im opts L] w))"
  by (rule ext)
     (simp add: handleRequest_openAi_def openAiStage_def canvas_spec unlessHandled_stage
        handlerAuthOptions_def del: firstToFinish.simps)

lemma openResponses_spec:
  "handleRequest_openResponses im opts nowMs L
     = (\<lambda>w. orNotFound
              (firstToFinish
                 [openResponsesStage im opts L, openAiStage im opts L,
                  canvasHostStage im opts nowMs L, controlUiStage im opts L] w))"
  by (rule ext)
     (simp add: handleRequest_openResponses_def openResponsesStage_def openAi_spec
        unlessHandled_stage handlerAuthOptions_def del: firstToFinish.simps)

lemma plugin_gate:
  "handleRequest_plugin im opts nowMs L w =
     (case handlePluginRequest opts of
        None \<Rightarrow> handleRequest_openResponses im opts nowMs L w
      | Some pluginHandler \<Rightarrow>
          if startsWith (lRequestPath L) ''/api/channels/'' then
            unlessHandled (gatewayReauthorization im opts L)
              (unlessHandled (callHandler Plugin (pluginHandler (lReq L)))
                 (handleRequest_openResponses im opts nowMs L))
              w
          else
            unlessHandled (callHandler Plugin (pluginHandler (lReq L)))
              (handleRequest_openResponses im opts nowMs L)
              w)"
  by (simp add: handleRequest_plugin_def gatewayReauthorization_def Let_def
      unlessHandled_def[of "gatewayReauthorization im opts L"]
      split: option.splits sum.splits)

lemma plugin_spec:
  "handleRequest_plugin im opts nowMs L
     = (\<lambda>w. orNotFound
              (firstToFinish
                 [pluginStage im opts L, openResponsesStage im opts L, openAiStage im opts L,
                  canvasHostStage im opts nowMs L, controlUiStage im opts L] w))"
  by (rule ext)
     (simp add: plugin_gate pluginStage_def openResponses_spec unlessHandled_stage
        firstToFinish_nested
        del: firstToFinish.simps split: option.splits)

lemma healthCheckStage_other_path:
  "\<not> isGatewayHealthPath (lRequestPath L) \<Longrightarrow> healthCheckStage L = passOn"
  by (rule ext) (simp add: healthCheckStage_def)

lemma route_refines_router:
  "handleRequest_route im opts nowMs L w = requestRouter im opts nowMs L w"
proof (cases "isGatewayHealthPath (lRequestPath L)")
  case True
  then show ?thesis
    by (simp add: handleRequest_route_def requestRouter_def routerStages_def
        healthCheckStage_def orNotFound_def split: prod.splits sum.splits)
next
  case False
  then show ?thesis
    unfolding handleRequest_route_def requestRouter_def routerStages_def plugin_spec
    by (simp add: unlessHandled_stage healthCheckStage_other_path hooksStage_def
        toolsInvokeStage_def slackStage_def handlerAuthOptions_def
        del: firstToFinish.simps)
qed

lemma try_reaches_route:
  assumes "loadConfig im = Inr cfg"
    and "\<not> malformedScopedPath (normalizeCanvasScopedUrl im (urlOrRoot req))"
    and "urlPathname im (urlOrRoot (rewrittenRequest im req)) = Inr path"
  shows "handleRequest_try im opts nowMs req w
           = handleRequest_route im opts nowMs (requestLocals im cfg req path)
               (logEvent CallLoadConfig w)"
  using assms
  by (simp add: handleRequest_try_def requestLocals_def rewrittenRequest_def Let_def)

text \<open>The handlers are called in the documented order: stage by stage, then for the router.\<close>

lemma handlerCalls_append [simp]:
  "handlerCalls (xs @ ys) = handlerCalls xs @ handlerCalls ys"
  by (induction xs rule: handlerCalls.induct) simp_all

lemma keepsTo_mono:
  "keepsTo s lo hi \<Longrightarrow> lo' \<le> lo \<Longrightarrow> hi \<le> hi' \<Longrightarrow> keepsTo s lo' hi'"
  unfolding keepsTo_def by (meson le_trans less_le_trans)

lemma keepsTo_passOn: "keepsTo passOn lo hi"
  by (simp add: keepsTo_def passOn_def callsInOrder_def)

lemma keepsTo_callHandler:
  "keepsTo (callHandler name h) (handlerRank name) (Suc (handlerRank name))"
  unfolding keepsTo_def
proof
  fix w
  show "\<exists>evs. trace (snd (callHandler name h w)) = trace w @ evs
          \<and> callsInOrder evs
          \<and> (\<forall>n\<in>set (handlerCalls evs).
                handlerRank name \<le> handlerRank n \<and> handlerRank n < Suc (handlerRank name))"
    by (rule exI[of _ "[CallHandler name]"])
       (simp add: callHandler_def logEvent_def callsInOrder_def split: prod.splits)
qed

lemma keepsTo_nil: "keepsTo (firstToFinish []) lo hi"
  by (simp add: keepsTo_def callsInOrder_def)

lemma keepsTo_cons:
  assumes s: "keepsTo s lo mid" and ss: "keepsTo (firstToFinish ss) mid hi"
    and bounds: "lo \<le> mid" "mid \<le> hi"
  shows "keepsTo (firstToFinish (s # ss)) lo hi"
  unfolding keepsTo_def
proof
  fix w
  obtain r w1 where run: "s w = (r, w1)" by (cases "s w")
  from s obtain evs1 where e1: "trace w1 = trace w @ evs1" "callsInOrder evs1"
      "\<forall>n\<in>set (handlerCalls evs1). lo \<le> handlerRank n \<and> handlerRank n < mid"
    unfolding keepsTo_def using run by (metis snd_conv)
  from ss obtain evs2 where e2:
      "trace (snd (firstToFinish ss w1)) = trace w1 @ evs2" "callsInOrder evs2"
      "\<forall>n\<in>set (handlerCalls evs2). mid \<le> handlerRank n \<and> handlerRank n < hi"
    unfolding keepsTo_def by blast
  have range1: "\<forall>n\<in>set (handlerCalls evs1). lo \<le> handlerRank n \<and> handlerRank n < hi"
    using e1(3) bounds by fastforce
  have range2: "\<forall>n\<in>set (handlerCalls evs2). lo \<le> handlerRank n \<and> handlerRank n < hi"
    using e2(3) bounds by fastforce
  show "\<exists>evs. trace (snd (firstToFinish (s # ss) w)) = trace w @ evs
          \<and> callsInOrder evs
          \<and> (\<forall>n\<in>set (handlerCalls evs). lo \<le> handlerRank n \<and> handlerRank n < hi)"
  proof (cases "r = Inr False")
    case True
    have both: "callsInOrder (evs1 @ evs2)"
      using e1(2,3) e2(2,3)
      by (fastforce simp: callsInOrder_def sorted_wrt_append)
    from True run e1(1) e2(1) both range1 range2 show ?thesis
      by (intro exI[of _ "evs1 @ evs2"]) auto
  next
    case False
    then have stop: "snd (firstToFinish (s # ss) w) = w1"
      using run by (cases r) auto
    from stop e1(1,2) range1 show ?thesis
      by (intro exI[of _ evs1]) simp
  qed
qed

lemma keepsTo_gate:
  assumes "\<And>w. take (length (trace w)) (trace (snd (g w))) = trace w
                \<and> handlerCalls (newEvents w (snd (g w))) = []"
  shows "keepsTo g lo hi"
  unfolding keepsTo_def
proof
  fix w
  from assms have "trace (snd (g w)) = trace w @ newEvents w (snd (g w))"
    unfolding newEvents_def by (metis append_take_drop_id)
  with assms show "\<exists>evs. trace (snd (g w)) = trace w @ evs \<and> callsInOrder evs
               \<and> (\<forall>n\<in>set (handlerCalls evs). lo \<le> handlerRank n \<and> handlerRank n < hi)"
    by (intro exI[of _ "newEvents w (snd (g w))"]) (simp add: callsInOrder_def)
qed

lemma resolver_calls_no_handler:
  "take (length (trace w)) (trace (snd (authorizeCanvasRequest im nowMs p w))) = trace w
   \<and> handlerCalls (newEvents w (snd (authorizeCanvasRequest im nowMs p w))) = []"
  by (auto simp: authorizeCanvasRequest_def Let_def logEvent_def newEvents_def
      capability_step_trace split: option.splits sum.splits)

lemma keepsTo_canvasAuthGate: "keepsTo (canvasAuthGate im opts nowMs L) lo hi"
proof (rule keepsTo_gate)
  fix w
  let ?p = "\<lparr>pReq = lReq L, pAuth = resolvedAuth opts, pTrustedProxies = lTrustedProxies L,
             pCanvasCapability = scopedCapability (lScopedCanvas L),
             pMalformedScopedPath = malformedScopedPath (lScopedCanvas L),
             pRateLimiter = rateLimiter opts\<rparr>"
  have same: "trace (snd (canvasAuthGate im opts nowMs L w))
                = trace (snd (authorizeCanvasRequest im nowMs ?p w))"
    by (simp add: canvasAuthGate_def respond_def split: prod.splits sum.splits)
  show "take (length (trace w)) (trace (snd (canvasAuthGate im opts nowMs L w))) = trace w
        \<and> handlerCalls (newEvents w (snd (canvasAuthGate im opts nowMs L w))) = []"
    using resolver_calls_no_handler[of w im nowMs ?p]
    by (simp add: same newEvents_def)
qed

lemma keepsTo_gatewayReauthorization: "keepsTo (gatewayReauthorization im opts L) lo hi"
  by (rule keepsTo_gate)
     (simp add: gatewayReauthorization_def Let_def logEvent_def respond_def newEvents_def
        split: sum.splits)

lemma keepsTo_handler:
  "lo \<le> handlerRank name \<Longrightarrow> handlerRank name < hi \<Longrightarrow> keepsTo (callHandler name h) lo hi"
  by (rule keepsTo_mono[OF keepsTo_callHandler]) simp_all

lemma keepsTo_controlUiStage: "keepsTo (controlUiStage im opts L) 8 10"
proof (cases "controlUiEnabled opts")
  case True
  then show ?thesis
    unfolding controlUiStage_def
    by (simp del: firstToFinish.simps)
       (intro keepsTo_cons[where lo = 8 and mid = 9] keepsTo_cons[where lo = 9 and mid = 10]
          keepsTo_nil keepsTo_handler; simp)
next
  case False
  then show ?thesis by (simp add: controlUiStage_def keepsTo_passOn)
qed

lemma keepsTo_canvasHostStage: "keepsTo (canvasHostStage im opts nowMs L) 6 8"
proof (cases "canvasHost opts")
  case None
  then show ?thesis by (simp add: canvasHostStage_def keepsTo_passOn)
next
  case (Some host)
  have gate: "keepsTo (if isCanvasPath im (lRequestPath L)
                       then canvasAuthGate im opts nowMs L else passOn) 6 6"
    by (simp add: keepsTo_canvasAuthGate keepsTo_passOn)
  from Some show ?thesis
    unfolding canvasHostStage_def
    by (simp only: option.case)
       (intro keepsTo_cons[where lo = 6 and mid = 6, OF gate]
          keepsTo_cons[where lo = 6 and mid = 7] keepsTo_cons[where lo = 7 and mid = 8]
          keepsTo_nil keepsTo_handler; simp)
qed

lemma keepsTo_openAiStage: "keepsTo (openAiStage im opts L) 5 6"
  by (simp add: openAiStage_def keepsTo_passOn keepsTo_handler)

lemma keepsTo_openResponsesStage: "keepsTo (openResponsesStage im opts L) 4 5"
  by (simp add: openResponsesStage_def keepsTo_passOn keepsTo_handler)

lemma keepsTo_pluginStage: "keepsTo (pluginStage im opts L) 3 4"
proof (cases "handlePluginRequest opts")
  case None
  then show ?thesis by (simp add: pluginStage_def keepsTo_passOn)
next
  case (Some pluginHandler)
  have gate: "keepsTo (if startsWith (lRequestPath L) ''/api/channels/''
                       then gatewayReauthorization im opts L else passOn) 3 3"
    by (simp add: keepsTo_gatewayReauthorization keepsTo_passOn)
  from Some show ?thesis
    unfolding pluginStage_def
    by (simp only: option.case)
       (intro keepsTo_cons[where lo = 3 and mid = 3, OF gate]
          keepsTo_cons[where lo = 3 and mid = 4] keepsTo_nil keepsTo_handler; simp)
qed

lemma keepsTo_healthCheckStage: "keepsTo (healthCheckStage L) lo hi"
  by (rule keepsTo_gate)
     (simp add: healthCheckStage_def writeResponse_def passOn_def newEvents_def
        split: sum.splits)

lemma keepsTo_routerStages: "keepsTo (firstToFinish (routerStages im opts nowMs L)) 0 10"
  unfolding routerStages_def hooksStage_def toolsInvokeStage_def slackStage_def
  by (intro keepsTo_cons[where lo = 0 and mid = 0, OF keepsTo_healthCheckStage]
        keepsTo_cons[where lo = 0 and mid = 1, OF keepsTo_handler]
        keepsTo_cons[where lo = 1 and mid = 2, OF keepsTo_handler]
        keepsTo_cons[where lo = 2 and mid = 3, OF keepsTo_handler]
        keepsTo_cons[where lo = 3 and mid = 4, OF keepsTo_pluginStage]
        keepsTo_cons[where lo = 4 and mid = 5, OF keepsTo_openResponsesStage]
        keepsTo_cons[where lo = 5 and mid = 6, OF keepsTo_openAiStage]
        keepsTo_cons[where lo = 6 and mid = 8, OF keepsTo_canvasHostStage]
        keepsTo_cons[where lo = 8 and mid = 10, OF keepsTo_controlUiStage]
        keepsTo_nil) simp_all

lemma router_calls_in_order:
  "callsInOrder (newEvents w (snd (requestRouter im opts nowMs L w)))"
proof -
  from keepsTo_routerStages[of im opts nowMs L] obtain evs where
    evs: "trace (snd (firstToFinish (routerStages im opts nowMs L) w)) = trace w @ evs"
         "callsInOrder evs"
    unfolding keepsTo_def by blast
  have same: "trace (snd (requestRouter im opts nowMs L w))
                = trace (snd (firstToFinish (routerStages im opts nowMs L) w))"
    by (simp add: requestRouter_def orNotFound_def writeResponse_def
        split: prod.splits sum.splits)
  show ?thesis using evs by (simp add: newEvents_def same)
qed

text \<open>
  Claim C3. A request whose URL the normaliser flags as malformed is answered before
  anything downstream runs. On the HTTP path the only call made is the config load, the
  session set is unchanged and, the config loaded, the response is the gateway's
  authorization failure for the bare unauthorized verdict. On the upgrade path the bare
  401 response is written and the socket destroyed, with no call made at all. The auth
  resolver, given the flag, returns the unauthorized denial and touches nothing.
\<close>

theorem malformed_scoped_path_fails_closed:
  "(\<not> isWebSocketUpgradeRequest req
      \<and> malformedScopedPath (normalizeCanvasScopedUrl im (urlOrRoot req)) \<longrightarrow>
        trace (handleRequest im opts nowMs req w) = trace w @ [CallLoadConfig]
        \<and> clients (handleRequest im opts nowMs req w) = clients w
        \<and> (\<forall>cfg. loadConfig im = Inr cfg \<longrightarrow>
               io (handleRequest im opts nowMs req w)
                 = sendGatewayAuthFailure im (setDefaultSecurityHeaders im (io w))
                     authUnauthorized))
   \<and> (malformedScopedPath (normalizeCanvasScopedUrl im (urlOrRoot req)) \<longrightarrow>
        onUpgrade im uopts nowMs req head sw
          = sw\<lparr>io := (io sw)\<lparr>written := written (io sw) @ [upgradeUnauthorizedText],
                               destroyed := True\<rparr>\<rparr>)
   \<and> (pMalformedScopedPath p \<longrightarrow>
        authorizeCanvasRequest im nowMs p aw = (Inr authUnauthorized, aw))"
proof (intro conjI impI allI)
  assume h: "\<not> isWebSocketUpgradeRequest req
      \<and> malformedScopedPath (normalizeCanvasScopedUrl im (urlOrRoot req))"
  then show "trace (handleRequest im opts nowMs req w) = trace w @ [CallLoadConfig]"
    by (cases "loadConfig im")
       (simp_all add: handleRequest_def handleRequest_try_def handleRequest_catch_def Let_def
          respond_def logEvent_def split: sum.splits)
  from h show "clients (handleRequest im opts nowMs req w) = clients w"
    by (cases "loadConfig im")
       (simp_all add: handleRequest_def handleRequest_try_def handleRequest_catch_def Let_def
          respond_def logEvent_def split: sum.splits)
  fix cfg assume "loadConfig im = Inr cfg"
  with h show "io (handleRequest im opts nowMs req w)
                 = sendGatewayAuthFailure im (setDefaultSecurityHeaders im (io w))
                     authUnauthorized"
    by (simp add: handleRequest_def handleRequest_try_def Let_def respond_def logEvent_def)
next
  assume "malformedScopedPath (normalizeCanvasScopedUrl im (urlOrRoot req))"
  then show "onUpgrade im uopts nowMs req head sw
          = sw\<lparr>io := (io sw)\<lparr>written := written (io sw) @ [upgradeUnauthorizedText],
                               destroyed := True\<rparr>\<rparr>"
    by (simp add: onUpgrade_def onUpgrade_body_def Let_def onSocket_def socketDestroy_def
        writeUpgradeAuthFailure_def authUnauthorized_def socketWrite_def
        upgradeUnauthorizedText_def)
next
  assume "pMalformedScopedPath p"
  then show "authorizeCanvasRequest im nowMs p aw = (Inr authUnauthorized, aw)"
    by (simp add: authorizeCanvasRequest_def)
qed

text \<open>
  Claim C7. The part of \<open>handleRequest\<close> from the request path on is the router of the
  specification: the stages health check, hooks, tool invocation, Slack, plugin routes
  (with the gateway re-authorization of \<open>/api/channels/\<close> paths before the handler),
  the two model-completion handlers, the canvas host (behind the auth resolver on canvas
  paths), and the control UI, tried in this order up to the first that finishes the
  request, and 404 Not Found when none does. The handlers it calls are called in the
  documented order, none twice. Every request that is not a WebSocket upgrade, whose
  config loads, whose URL is not malformed and whose path parses is handled by this
  router, after the security headers were set, and a throw of the router goes to the
  \<open>catch\<close> block.
\<close>

theorem router_priority_order:
  "handleRequest_route im opts nowMs L w
     = orNotFound
         (firstToFinish
            [healthCheckStage L,
             hooksStage opts L,
             toolsInvokeStage im opts L,
             slackStage im L,
             pluginStage im opts L,
             openResponsesStage im opts L,
             openAiStage im opts L,
             canvasHostStage im opts nowMs L,
             controlUiStage im opts L]
            w)
   \<and> callsInOrder (newEvents w (snd (handleRequest_route im opts nowMs L w)))
   \<and> (\<not> isWebSocketUpgradeRequest req
        \<and> loadConfig im = Inr cfg
        \<and> \<not> malformedScopedPath (normalizeCanvasScopedUrl im (urlOrRoot req))
        \<and> urlPathname im (urlOrRoot (rewrittenRequest im req)) = Inr path
        \<longrightarrow> handleRequest im opts nowMs req w
              = (case requestRouter im opts nowMs (requestLocals im cfg req path)
                        (logEvent CallLoadConfig (respond (setDefaultSecurityHeaders im) w)) of
                   (Inl e, w') \<Rightarrow> handleRequest_catch w'
                 | (Inr u, w') \<Rightarrow> w'))"
  using route_refines_router[of im opts nowMs L w]
        route_refines_router[of im opts nowMs "requestLocals im cfg req path"
           "logEvent CallLoadConfig (respond (setDefaultSecurityHeaders im) w)"]
        try_reaches_route[of im cfg req path opts nowMs
           "respond (setDefaultSecurityHeaders im) w"]
        router_calls_in_order[of w im opts nowMs L]
  by (simp add: requestRouter_def routerStages_def handleRequest_def Let_def)

text \<open>A throw on the way to the \<open>catch\<close> block, and what the block does.\<close>

lemma firstToFinish_throw:
  "firstToFinish pre v = (Inr False, v1) \<Longrightarrow> s v1 = (Inl e, vAt)
     \<Longrightarrow> firstToFinish (pre @ s # post) v = (Inl e, vAt)"
  by (simp add: firstToFinish_append)

lemma callHandler_throw:
  "h (io v) = (Inl e, res') \<Longrightarrow>
     callHandler name h v = (Inl e, (logEvent (CallHandler name) v)\<lparr>io := res'\<rparr>)"
  by (simp add: callHandler_def)

lemma catch_nothing_sent:
  "resSent (io u) = NothingSent \<Longrightarrow>
     handleRequest_catch u
       = u\<lparr>io := \<lparr>statusCode = 500,
                   resHeaders = (''Content-Type'', ''text/plain; charset=utf-8'')
                                # filter (\<lambda>h. fst h \<noteq> ''Content-Type'') (resHeaders (io u)),
                   resSent = Ended ''Internal Server Error''\<rparr>\<rparr>"
  by (cases "io u")
     (simp add: handleRequest_catch_def sendPlainText_def setHeader_def assignStatusCode_def
        resEnd_def)

lemma catch_already_sent:
  "resSent (io u) \<noteq> NothingSent \<Longrightarrow> handleRequest_catch u = u"
  by (simp add: handleRequest_catch_def sendPlainText_def setHeader_def assignStatusCode_def)

lemma try_throw_reaches_catch:
  "\<not> isWebSocketUpgradeRequest req \<Longrightarrow>
   handleRequest_try im opts nowMs req (respond (setDefaultSecurityHeaders im) w) = (Inl e, wAt)
     \<Longrightarrow> handleRequest im opts nowMs req w = handleRequest_catch wAt"
  by (simp add: handleRequest_def Let_def)

text \<open>
  Claim C8, as stated, fails. A hooks handler that has ended the response and then throws
  leaves the client with what it sent: in the \<open>catch\<close> block \<open>setHeader\<close> throws on a
  response whose headers are sent, so the status stays 200 and the body is the handler's.
\<close>

theorem response_already_sent_counterexample:
  "handleRequest exampleImports (exampleOpts\<lparr>handleHooksRequest := failsLeaking\<rparr>) 4000
     (remoteRequest ''/hooks/wake'' []) (exampleWorld freshResponse)
   = \<lparr>io = \<lparr>statusCode = 200,
             resHeaders = [(''X-Content-Type-Options'', ''nosniff'')],
             resSent = Ended ''partial''\<rparr>,
      clients = [uiSession, nodeSession],
      trace = [CallLoadConfig, CallHandler Hooks]\<rparr>
   \<and> statusCode (io (handleRequest exampleImports
                        (exampleOpts\<lparr>handleHooksRequest := failsLeaking\<rparr>) 4000
                        (remoteRequest ''/hooks/wake'' []) (exampleWorld freshResponse)))
       \<noteq> 500"
  by (simp add: model_defs fixture_defs)

text \<open>
  Claim C8, amended. On a request that is not a WebSocket upgrade, every throw out of the
  \<open>try\<close> block reaches the \<open>catch\<close> block with the response as it stood at the throw:
  a throw of the config load, of the URL parsing, and of any stage of the router reached
  after the stages before it passed, also inside a composed stage; a handler that throws
  makes its stage throw. When nothing of the response has been sent at the throw, the
  block answers with status 500, a plain-text content type and the body
  \<open>Internal Server Error\<close>, whatever the thrown value is; when the headers have
  already been sent, the response stays as it was sent.
\<close>

theorem dispatch_exception_gives_opaque_500:
  assumes plain: "\<not> isWebSocketUpgradeRequest req"
  shows
    "(fst (handleRequest_try im opts nowMs req (respond (setDefaultSecurityHeaders im) w)) = Inl e
        \<longrightarrow> handleRequest im opts nowMs req w
              = handleRequest_catch
                  (snd (handleRequest_try im opts nowMs req
                          (respond (setDefaultSecurityHeaders im) w))))
     \<and> (loadConfig im = Inl e
          \<longrightarrow> handleRequest im opts nowMs req w
                = handleRequest_catch
                    (logEvent CallLoadConfig (respond (setDefaultSecurityHeaders im) w)))
     \<and> (loadConfig im = Inr cfg
          \<and> \<not> malformedScopedPath (normalizeCanvasScopedUrl im (urlOrRoot req))
          \<and> urlPathname im (urlOrRoot (rewrittenRequest im req)) = Inl e
          \<longrightarrow> handleRequest im opts nowMs req w
                = handleRequest_catch
                    (logEvent CallLoadConfig (respond (setDefaultSecurityHeaders im) w)))
     \<and> (loadConfig im = Inr cfg
          \<and> \<not> malformedScopedPath (normalizeCanvasScopedUrl im (urlOrRoot req))
          \<and> urlPathname im (urlOrRoot (rewrittenRequest im req)) = Inr path
          \<and> routerStages im opts nowMs (requestLocals im cfg req path) = pre @ s # post
          \<and> firstToFinish pre
               (logEvent CallLoadConfig (respond (setDefaultSecurityHeaders im) w))
             = (Inr False, w1)
          \<and> s w1 = (Inl e, wAt)
          \<longrightarrow> handleRequest im opts nowMs req w = handleRequest_catch wAt)
     \<and> (firstToFinish inner v = (Inr False, v1) \<and> t v1 = (Inl e, vAt)
          \<longrightarrow> firstToFinish (inner @ t # after) v = (Inl e, vAt))
     \<and> (h (io v) = (Inl e, res')
          \<longrightarrow> callHandler name h v = (Inl e, (logEvent (CallHandler name) v)\<lparr>io := res'\<rparr>))
     \<and> (resSent (io u) = NothingSent
          \<longrightarrow> handleRequest_catch u
                = u\<lparr>io := \<lparr>statusCode = 500,
                            resHeaders =
                              (''Content-Type'', ''text/plain; charset=utf-8'')
                              # filter (\<lambda>h. fst h \<noteq> ''Content-Type'') (resHeaders (io u)),
                            resSent = Ended ''Internal Server Error''\<rparr>\<rparr>)
     \<and> (resSent (io u) \<noteq> NothingSent \<longrightarrow> handleRequest_catch u = u)"
proof (intro conjI impI)
  let ?w0 = "respond (setDefaultSecurityHeaders im) w"
  {
    assume "fst (handleRequest_try im opts nowMs req ?w0) = Inl e"
    then have "handleRequest_try im opts nowMs req ?w0
                 = (Inl e, snd (handleRequest_try im opts nowMs req ?w0))"
      by (cases "handleRequest_try im opts nowMs req ?w0") simp
    then show "handleRequest im opts nowMs req w
                 = handleRequest_catch (snd (handleRequest_try im opts nowMs req ?w0))"
      by (rule try_throw_reaches_catch[OF plain])
  }
  {
    assume "loadConfig im = Inl e"
    then have "handleRequest_try im opts nowMs req ?w0 = (Inl e, logEvent CallLoadConfig ?w0)"
      by (simp add: handleRequest_try_def Let_def)
    then show "handleRequest im opts nowMs req w = handleRequest_catch (logEvent CallLoadConfig ?w0)"
      by (rule try_throw_reaches_catch[OF plain])
  }
  {
    assume "loadConfig im = Inr cfg
          \<and> \<not> malformedScopedPath (normalizeCanvasScopedUrl im (urlOrRoot req))
          \<and> urlPathname im (urlOrRoot (rewrittenRequest im req)) = Inl e"
    then have "handleRequest_try im opts nowMs req ?w0 = (Inl e, logEvent CallLoadConfig ?w0)"
      by (simp add: handleRequest_try_def rewrittenRequest_def Let_def)
    then show "handleRequest im opts nowMs req w = handleRequest_catch (logEvent CallLoadConfig ?w0)"
      by (rule try_throw_reaches_catch[OF plain])
  }
  {
    assume h: "loadConfig im = Inr cfg
          \<and> \<not> malformedScopedPath (normalizeCanvasScopedUrl im (urlOrRoot req))
          \<and> urlPathname im (urlOrRoot (rewrittenRequest im req)) = Inr path
          \<and> routerStages im opts nowMs (requestLocals im cfg req path) = pre @ s # post
          \<and> firstToFinish pre (logEvent CallLoadConfig ?w0) = (Inr False, w1)
          \<and> s w1 = (Inl e, wAt)"
    then have stages: "firstToFinish (routerStages im opts nowMs (requestLocals im cfg req path))
                         (logEvent CallLoadConfig ?w0) = (Inl e, wAt)"
      using firstToFinish_throw[of pre "logEvent CallLoadConfig ?w0" w1 s e wAt post] by simp
    from h have "handleRequest_try im opts nowMs req ?w0
                   = handleRequest_route im opts nowMs (requestLocals im cfg req path)
                       (logEvent CallLoadConfig ?w0)"
      using try_reaches_route[of im cfg req path opts nowMs ?w0] by blast
    then have "handleRequest_try im opts nowMs req ?w0 = (Inl e, wAt)"
      using stages by (simp add: route_refines_router requestRouter_def orNotFound_def)
    then show "handleRequest im opts nowMs req w = handleRequest_catch wAt"
      by (rule try_throw_reaches_catch[OF plain])
  }
  {
    assume "firstToFinish inner v = (Inr False, v1) \<and> t v1 = (Inl e, vAt)"
    then show "firstToFinish (inner @ t # after) v = (Inl e, vAt)"
      using firstToFinish_throw[of inner v v1 t e vAt after] by blast
  }
  {
    assume "h (io v) = (Inl e, res')"
    then show "callHandler name h v = (Inl e, (logEvent (CallHandler name) v)\<lparr>io := res'\<rparr>)"
      by (rule callHandler_throw)
  }
  {
    assume "resSent (io u) = NothingSent"
    then show "handleRequest_catch u
                = u\<lparr>io := \<lparr>statusCode = 500,
                            resHeaders =
                              (''Content-Type'', ''text/plain; charset=utf-8'')
                              # filter (\<lambda>h. fst h \<noteq> ''Content-Type'') (resHeaders (io u)),
                            resSent = Ended ''Internal Server Error''\<rparr>\<rparr>"
      by (rule catch_nothing_sent)
  }
  {
    assume "resSent (io u) \<noteq> NothingSent"
    then show "handleRequest_catch u = u" by (rule catch_already_sent)
  }
qed

text \<open>
  Claim C9 fails on the code. For a rate-limited verdict with \<open>retryAfterMs\<close> 1500 the
  status line and \<open>Retry-After: 2\<close> are as the claim says, but the empty string that
  should separate the headers from the body is dropped by \<open>.filter(Boolean)\<close>: the JSON
  text follows \<open>Connection: close\<close> after a single line break, so the bytes written hold no
  end of headers and no body. The 401 response of the same function ends its headers.
\<close>

theorem rate_limited_upgrade_failure_lacks_blank_line:
  "written (writeUpgradeAuthFailure exampleRateLimited freshSocket)
     = [''HTTP/1.1 429 Too Many Requests'' @ CRLF
        @ ''Retry-After: 2'' @ CRLF
        @ ''Content-Type: application/json; charset=utf-8'' @ CRLF
        @ ''Connection: close'' @ CRLF
        @ rateLimitedJson]
   \<and> httpMessageBody (concat (written (writeUpgradeAuthFailure exampleRateLimited freshSocket)))
       = None
   \<and> httpMessageBody (concat (written (writeUpgradeAuthFailure authUnauthorized freshSocket)))
       = Some []"
  by (simp add: upgrade_failure_defs)

text \<open>The same holds for every rate-limited verdict.\<close>

lemma rateLimitedJson_nonempty: "rateLimitedJson \<noteq> []"
  by (simp add: rateLimitedJson_def)

lemma rate_limited_upgrade_failure_shape:
  assumes limited: "rateLimited auth = Some True"
  shows "writeUpgradeAuthFailure auth sock
           = socketWrite
               (''HTTP/1.1 429 Too Many Requests'' @ CRLF
                @ (case retryAfterSecondsOf auth of
                     None \<Rightarrow> []
                   | Some secs \<Rightarrow>
                       if secs = 0 then [] else ''Retry-After: '' @ numberToString secs @ CRLF)
                @ ''Content-Type: application/json; charset=utf-8'' @ CRLF
                @ ''Connection: close'' @ CRLF @ rateLimitedJson)
               sock"
  using limited rateLimitedJson_nonempty
  by (cases "retryAfterSecondsOf auth"; cases rateLimitedJson)
     (simp_all add: writeUpgradeAuthFailure_def)

section \<open>Runs of the example deployment\<close>

text \<open>
  A malformed scoped URL (an empty token) on the HTTP path, on the upgrade path, and
  the resolver called with the flag set.
\<close>

theorem malformed_scoped_path_fails_closed_witness:
  "handleRequest exampleImports exampleOpts 4000 (remoteRequest ''/cap//canvas/x'' [])
     (exampleWorld freshResponse)
   = \<lparr>io = \<lparr>statusCode = 401,
             resHeaders = [(''Content-Type'', ''text/plain; charset=utf-8''),
                           (''X-Content-Type-Options'', ''nosniff'')],
             resSent = Ended ''Unauthorized''\<rparr>,
      clients = [uiSession, nodeSession],
      trace = [CallLoadConfig]\<rparr>
   \<and> onUpgrade exampleImports exampleUpgradeOpts 4000 (remoteRequest ''/cap//canvas-ws'' [])
       [] (exampleWorld freshSocket)
     = \<lparr>io = \<lparr>written = [upgradeUnauthorizedText], destroyed = True\<rparr>,
        clients = [uiSession, nodeSession],
        trace = []\<rparr>
   \<and> authorizeCanvasRequest exampleImports 4000
       ((exampleParams [] (Some ''T''))\<lparr>pMalformedScopedPath := True\<rparr>)
       (exampleWorld freshResponse)
     = (Inr authUnauthorized, exampleWorld freshResponse)"
proof -
  let ?http = "remoteRequest ''/cap//canvas/x'' []"
  let ?ws = "remoteRequest ''/cap//canvas-ws'' []"
  let ?p = "(exampleParams [] (Some ''T''))\<lparr>pMalformedScopedPath := True\<rparr>"
  have badHttp: "malformedScopedPath (normalizeCanvasScopedUrl exampleImports (urlOrRoot ?http))"
    by (simp add: exampleImports_def exampleNormalizeCanvasScopedUrl_def urlOrRoot_def
        remoteRequest_def)
  have badWs: "malformedScopedPath (normalizeCanvasScopedUrl exampleImports (urlOrRoot ?ws))"
    by (simp add: exampleImports_def exampleNormalizeCanvasScopedUrl_def urlOrRoot_def
        remoteRequest_def)
  have cfg: "loadConfig exampleImports = Inr \<lparr>gatewayTrustedProxies = None\<rparr>"
    by (simp add: exampleImports_def)
  have flag: "pMalformedScopedPath ?p" by simp
  note http = malformed_scoped_path_fails_closed[of ?http exampleImports exampleOpts 4000
      "exampleWorld freshResponse" exampleUpgradeOpts "[]" "exampleWorld freshSocket" ?p
      "exampleWorld freshResponse"]
  note ws = malformed_scoped_path_fails_closed[of ?ws exampleImports exampleOpts 4000
      "exampleWorld freshResponse" exampleUpgradeOpts "[]" "exampleWorld freshSocket" ?p
      "exampleWorld freshResponse"]
  let ?out = "handleRequest exampleImports exampleOpts 4000 ?http (exampleWorld freshResponse)"
  from http badHttp cfg example_plain_request[of "''/cap//canvas/x''"]
  have "trace ?out = trace (exampleWorld freshResponse) @ [CallLoadConfig]"
    and "clients ?out = clients (exampleWorld freshResponse)"
    and "io ?out = sendGatewayAuthFailure exampleImports
                     (setDefaultSecurityHeaders exampleImports (io (exampleWorld freshResponse)))
                     authUnauthorized"
    by blast+
  then have a: "?out = \<lparr>io = \<lparr>statusCode = 401,
             resHeaders = [(''Content-Type'', ''text/plain; charset=utf-8''),
                           (''X-Content-Type-Options'', ''nosniff'')],
             resSent = Ended ''Unauthorized''\<rparr>,
      clients = [uiSession, nodeSession],
      trace = [CallLoadConfig]\<rparr>"
    by (cases ?out)
       (simp add: exampleWorld_def exampleImports_def exampleSendGatewayAuthFailure_def
          authUnauthorized_def sendPlainText_def assignStatusCode_def setHeader_def resEnd_def
          orAsItWas_def freshResponse_def)
  from ws badWs
  have b: "onUpgrade exampleImports exampleUpgradeOpts 4000 ?ws [] (exampleWorld freshSocket)
     = \<lparr>io = \<lparr>written = [upgradeUnauthorizedText], destroyed = True\<rparr>,
        clients = [uiSession, nodeSession],
        trace = []\<rparr>"
    by (simp add: exampleWorld_def freshSocket_def)
  from http flag
  have c: "authorizeCanvasRequest exampleImports 4000 ?p (exampleWorld freshResponse)
     = (Inr authUnauthorized, exampleWorld freshResponse)"
    by blast
  from a b c show ?thesis by simp
qed

text \<open>
  A path no handler claims is answered 404 after every handler was tried in order; when
  the plugin handler claims the request, nothing after it is called.
\<close>

theorem router_priority_order_witness:
  "handleRequest exampleImports exampleOpts 4000 (remoteRequest ''/nothing-here'' [])
     (exampleWorld freshResponse)
   = \<lparr>io = \<lparr>statusCode = 404,
             resHeaders = [(''Content-Type'', ''text/plain; charset=utf-8''),
                           (''X-Content-Type-Options'', ''nosniff'')],
             resSent = Ended ''Not Found''\<rparr>,
      clients = [uiSession, nodeSession],
      trace = [CallLoadConfig, CallHandler Hooks, CallHandler ToolsInvoke,
               CallHandler Slack, CallHandler Plugin, CallHandler OpenResponses,
               CallHandler OpenAi, CallHandler A2ui, CallHandler CanvasHostHttp,
               CallHandler ControlUiAvatar, CallHandler ControlUiHttp]\<rparr>
   \<and> handleRequest exampleImports (exampleOpts\<lparr>handlePluginRequest := Some claimsIt\<rparr>)
       4000 (remoteRequest ''/nothing-here'' []) (exampleWorld freshResponse)
     = \<lparr>io = \<lparr>statusCode = 200,
               resHeaders = [(''Content-Type'', ''text/plain; charset=utf-8''),
                             (''X-Content-Type-Options'', ''nosniff'')],
               resSent = Ended ''handled''\<rparr>,
        clients = [uiSession, nodeSession],
        trace = [CallLoadConfig, CallHandler Hooks, CallHandler ToolsInvoke,
                 CallHandler Slack, CallHandler Plugin]\<rparr>"
proof -
  let ?req = "remoteRequest ''/nothing-here'' []"
  let ?cfg = "\<lparr>gatewayTrustedProxies = None\<rparr>"
  let ?w0 = "logEvent CallLoadConfig
               (respond (setDefaultSecurityHeaders exampleImports) (exampleWorld freshResponse))"
  have cfg: "loadConfig exampleImports = Inr ?cfg"
    by (simp add: exampleImports_def)
  have wf: "\<not> malformedScopedPath (normalizeCanvasScopedUrl exampleImports (urlOrRoot ?req))"
    by (simp add: exampleImports_def exampleNormalizeCanvasScopedUrl_def urlOrRoot_def
        remoteRequest_def)
  have path: "urlPathname exampleImports (urlOrRoot (rewrittenRequest exampleImports ?req))
                = Inr ''/nothing-here''"
    by (simp add: exampleImports_def exampleNormalizeCanvasScopedUrl_def urlOrRoot_def
        remoteRequest_def rewrittenRequest_def truthyString_def)
  note inst = router_priority_order[of exampleImports _ 4000
      "requestLocals exampleImports ?cfg ?req ''/nothing-here''" "exampleWorld freshResponse"
      ?req ?cfg "''/nothing-here''"]
  from inst[of exampleOpts] cfg wf path example_plain_request[of "''/nothing-here''"]
  have first: "handleRequest exampleImports exampleOpts 4000 ?req (exampleWorld freshResponse)
      = (case requestRouter exampleImports exampleOpts 4000
                (requestLocals exampleImports ?cfg ?req ''/nothing-here'') ?w0 of
           (Inl e, w') \<Rightarrow> handleRequest_catch w'
         | (Inr u, w') \<Rightarrow> w')"
    by blast
  from inst[of "exampleOpts\<lparr>handlePluginRequest := Some claimsIt\<rparr>"] cfg wf path
    example_plain_request[of "''/nothing-here''"]
  have second: "handleRequest exampleImports
        (exampleOpts\<lparr>handlePluginRequest := Some claimsIt\<rparr>) 4000 ?req
        (exampleWorld freshResponse)
      = (case requestRouter exampleImports
                (exampleOpts\<lparr>handlePluginRequest := Some claimsIt\<rparr>) 4000
                (requestLocals exampleImports ?cfg ?req ''/nothing-here'') ?w0 of
           (Inl e, w') \<Rightarrow> handleRequest_catch w'
         | (Inr u, w') \<Rightarrow> w')"
    by blast
  show ?thesis
    unfolding first second
    by (simp add: router_defs model_defs fixture_defs)
qed

text \<open>
  The hooks handler throws an error that names a credential before it has written
  anything: the response is the fixed 500.
\<close>

theorem dispatch_exception_gives_opaque_500_witness:
  "handleRequest exampleImports (exampleOpts\<lparr>handleHooksRequest := failsBeforeAnswering\<rparr>) 4000
     (remoteRequest ''/hooks/wake'' []) (exampleWorld freshResponse)
   = \<lparr>io = \<lparr>statusCode = 500,
             resHeaders = [(''Content-Type'', ''text/plain; charset=utf-8''),
                           (''X-Content-Type-Options'', ''nosniff'')],
             resSent = Ended ''Internal Server Error''\<rparr>,
      clients = [uiSession, nodeSession],
      trace = [CallLoadConfig, CallHandler Hooks]\<rparr>"
proof -
  let ?opts = "exampleOpts\<lparr>handleHooksRequest := failsBeforeAnswering\<rparr>"
  let ?req = "remoteRequest ''/hooks/wake'' []"
  let ?cfg = "\<lparr>gatewayTrustedProxies = None\<rparr>"
  let ?L = "requestLocals exampleImports ?cfg ?req ''/hooks/wake''"
  let ?e = "''connect ECONNREFUSED db://admin:hunter2@10.0.0.5''"
  let ?w0 = "logEvent CallLoadConfig
               (respond (setDefaultSecurityHeaders exampleImports) (exampleWorld freshResponse))"
  let ?wAt = "(logEvent (CallHandler Hooks) ?w0)\<lparr>io := io ?w0\<rparr>"
  let ?post = "[toolsInvokeStage exampleImports ?opts ?L, slackStage exampleImports ?L,
                pluginStage exampleImports ?opts ?L, openResponsesStage exampleImports ?opts ?L,
                openAiStage exampleImports ?opts ?L,
                canvasHostStage exampleImports ?opts 4000 ?L,
                controlUiStage exampleImports ?opts ?L]"
  note inst = dispatch_exception_gives_opaque_500[OF example_plain_request[of "''/hooks/wake''"],
      where im = exampleImports and opts = ?opts and nowMs = 4000
        and w = "exampleWorld freshResponse" and e = ?e and cfg = ?cfg
        and path = "''/hooks/wake''" and pre = "[healthCheckStage ?L]"
        and s = "hooksStage ?opts ?L" and post = ?post and ?w1.0 = ?w0 and wAt = ?wAt
        and h = "failsBeforeAnswering (lReq ?L)" and v = ?w0 and res' = "io ?w0"
        and name = Hooks and u = ?wAt]
  have cfg: "loadConfig exampleImports = Inr ?cfg"
    by (simp add: exampleImports_def)
  have wf: "\<not> malformedScopedPath (normalizeCanvasScopedUrl exampleImports (urlOrRoot ?req))"
    by (simp add: exampleImports_def exampleNormalizeCanvasScopedUrl_def urlOrRoot_def
        remoteRequest_def)
  have path: "urlPathname exampleImports (urlOrRoot (rewrittenRequest exampleImports ?req))
                = Inr ''/hooks/wake''"
    by (simp add: exampleImports_def exampleNormalizeCanvasScopedUrl_def urlOrRoot_def
        remoteRequest_def rewrittenRequest_def truthyString_def)
  have stages: "routerStages exampleImports ?opts 4000 ?L
                  = [healthCheckStage ?L] @ hooksStage ?opts ?L # ?post"
    by (simp add: routerStages_def)
  have passed: "firstToFinish [healthCheckStage ?L] ?w0 = (Inr False, ?w0)"
    by (simp add: healthCheckStage_def passOn_def requestLocals_def isGatewayHealthPath_def)
  have handler: "failsBeforeAnswering (lReq ?L) (io ?w0) = (Inl ?e, io ?w0)"
    by (simp add: failsBeforeAnswering_def)
  from inst handler have "callHandler Hooks (failsBeforeAnswering (lReq ?L)) ?w0 = (Inl ?e, ?wAt)"
    by blast
  then have thrown: "hooksStage ?opts ?L ?w0 = (Inl ?e, ?wAt)"
    by (simp add: hooksStage_def)
  from inst cfg wf path stages passed thrown
  have reached: "handleRequest exampleImports ?opts 4000 ?req (exampleWorld freshResponse)
                   = handleRequest_catch ?wAt"
    by blast
  have unsent: "resSent (io ?wAt) = NothingSent"
    by (simp add: logEvent_def respond_def exampleWorld_def exampleImports_def orAsItWas_def
        setHeader_def freshResponse_def)
  from inst unsent
  have "handleRequest_catch ?wAt
          = ?wAt\<lparr>io := \<lparr>statusCode = 500,
                        resHeaders =
                          (''Content-Type'', ''text/plain; charset=utf-8'')
                          # filter (\<lambda>h. fst h \<noteq> ''Content-Type'') (resHeaders (io ?wAt)),
                        resSent = Ended ''Internal Server Error''\<rparr>\<rparr>"
    by blast
  with reached show ?thesis
    by (simp add: logEvent_def respond_def exampleWorld_def exampleImports_def orAsItWas_def
        setHeader_def freshResponse_def)
qed

end
